theory Spec2Isabelle
  imports Complex_Main
begin

section \<open>Values shared by the whole development\<close>

text \<open>
  Times are JavaScript time values: milliseconds since the epoch, as \<open>Date.now()\<close> and
  \<open>new Date()\<close> give them. A function that reads the clock takes the reading as its
  argument \<open>now\<close>; one call reads one instant.
\<close>

type_synonym time = int

text \<open>The claims embedded in every token: \<open>interface JWTPayload\<close> of the token service.\<close>

record JWTPayload =
  userId :: string
  email :: string
  role :: string

text \<open>
  What \<open>jwt.sign\<close> adds to the payload: issue time and expiry in seconds, issuer and
  audience.
\<close>

record claims = JWTPayload +
  iat :: int
  exp :: int
  iss :: string
  aud :: string

text \<open>
  A token string is represented by what it decodes to. The library \<open>jsonwebtoken\<close> is
  not part of the repository; its compact serialisation is a deterministic encoding of the
  header, the claims and an HMAC of both under the signing key, with no nonce unless the
  caller passes one (the token service passes none). So two tokens signed by the service are
  the same string exactly when key and claims agree. \<open>NotJWT\<close> stands for every string
  that does not parse as a signed token.
\<close>

datatype token = JWT string claims | NotJWT string

definition jwt_sign :: "JWTPayload \<Rightarrow> string \<Rightarrow> int \<Rightarrow> string \<Rightarrow> string \<Rightarrow> time \<Rightarrow> token" where
  "jwt_sign payload secret expiresIn issuer audience now =
     JWT secret \<lparr>userId = userId payload, email = email payload, role = role payload,
       iat = now div 1000, exp = now div 1000 + expiresIn, iss = issuer, aud = audience\<rparr>"

text \<open>
  \<open>jwt.verify\<close> throws on a malformed string, a wrong signature, a wrong issuer or
  audience, and once the clock second has reached \<open>exp\<close>; \<open>None\<close> is the throw.
\<close>

definition jwt_verify :: "token \<Rightarrow> string \<Rightarrow> string \<Rightarrow> string \<Rightarrow> time \<Rightarrow> claims option" where
  "jwt_verify tok secret issuer audience now =
     (case tok of
        NotJWT s \<Rightarrow> None
      | JWT k c \<Rightarrow>
          if k = secret \<and> now div 1000 < exp c \<and> aud c = audience \<and> iss c = issuer
          then Some c else None)"

text \<open>
  The library \<open>bcryptjs\<close> is not part of the repository either. Its digest is computed
  from the cost, the salt and the key that the Blowfish key schedule reads: the bytes of the
  password followed by a NUL byte, taken cyclically, 72 bytes in all. The model keeps these
  three and nothing else, so it has no collisions beyond those of the key itself. Passwords
  are byte strings (the UTF-8 encoding of the JavaScript string).
\<close>

definition bcrypt_key :: "string \<Rightarrow> string" where
  "bcrypt_key password = take 72 (concat (replicate 72 (password @ [CHR 0x00])))"

datatype digest = Bcrypt nat string string | NotBcrypt string

definition bcrypt_hash :: "string \<Rightarrow> nat \<Rightarrow> string \<Rightarrow> digest" where
  "bcrypt_hash password rounds salt = Bcrypt rounds salt (bcrypt_key password)"

definition bcrypt_compare :: "string \<Rightarrow> digest \<Rightarrow> bool" where
  "bcrypt_compare password hash =
     (case hash of Bcrypt rounds salt key \<Rightarrow> bcrypt_key password = key | NotBcrypt s \<Rightarrow> False)"

text \<open>The environment variables the service reads; the two lifetimes are in seconds.\<close>

record config =
  SALT_ROUNDS :: nat
  JWT_SECRET :: string
  JWT_REFRESH_SECRET :: string
  JWT_EXPIRES_IN :: int
  JWT_REFRESH_EXPIRES_IN :: int
  NODE_ENV :: "string option"

section \<open>The relational store\<close>

text \<open>
  The tables of the migration that the authentication code touches, each a list of rows.
  Columns keep their names, prefixed by the table: \<open>u_\<close> for \<open>users\<close>, \<open>us_\<close> for
  \<open>user_skills\<close>, \<open>rt_\<close> for \<open>refresh_tokens\<close>, \<open>prt_\<close> for
  \<open>password_reset_tokens\<close>. Nullable columns are options, \<open>REAL\<close> columns rationals.
\<close>

record user =
  u_id :: string
  u_email :: string
  u_firstName :: string
  u_lastName :: string
  u_avatar :: "string option"
  u_bio :: "string option"
  u_hourlyRate :: "rat option"
  u_location :: "string option"
  u_timezone :: "string option"
  u_role :: string
  u_isEmailVerified :: bool
  u_isOnline :: bool
  u_lastSeen :: time
  u_passwordHash :: digest
  u_companyName :: "string option"
  u_companySize :: "string option"
  u_website :: "string option"
  u_github :: "string option"
  u_linkedin :: "string option"
  u_portfolioData :: "string option"
  u_averageRating :: rat
  u_totalReviews :: int
  u_totalEarnings :: rat
  u_totalSpent :: rat
  u_createdAt :: time
  u_updatedAt :: time

record skill_row =
  us_id :: string
  us_userId :: string
  us_skill :: string

record refresh_row =
  rt_id :: string
  rt_token :: token
  rt_userId :: string
  rt_expiresAt :: time
  rt_createdAt :: time

record reset_row =
  prt_id :: string
  prt_token :: string
  prt_userId :: string
  prt_expiresAt :: time
  prt_createdAt :: time

record db =
  users :: "user list"
  userSkills :: "skill_row list"
  refreshTokens :: "refresh_row list"
  passwordResetTokens :: "reset_row list"

text \<open>
  The constraints of the schema: primary keys, the unique indexes on \<open>users.email\<close>,
  \<open>user_skills(userId, skill)\<close>, \<open>refresh_tokens.token\<close> and
  \<open>password_reset_tokens.token\<close>, and the foreign keys from the other tables to
  \<open>users\<close>.
\<close>

definition db_ok :: "db \<Rightarrow> bool" where
  "db_ok d \<longleftrightarrow>
     distinct (map u_id (users d)) \<and> distinct (map u_email (users d)) \<and>
     distinct (map us_id (userSkills d)) \<and>
     distinct (map (\<lambda>r. (us_userId r, us_skill r)) (userSkills d)) \<and>
     distinct (map rt_id (refreshTokens d)) \<and> distinct (map rt_token (refreshTokens d)) \<and>
     distinct (map prt_id (passwordResetTokens d)) \<and>
     distinct (map prt_token (passwordResetTokens d)) \<and>
     list_all (\<lambda>r. us_userId r \<in> set (map u_id (users d))) (userSkills d) \<and>
     list_all (\<lambda>r. rt_userId r \<in> set (map u_id (users d))) (refreshTokens d) \<and>
     list_all (\<lambda>r. prt_userId r \<in> set (map u_id (users d))) (passwordResetTokens d)"

text \<open>
  The errors of the ORM that depend on the data: a violated unique constraint with the
  columns of the index, a required record that is not there, a violated foreign key.
\<close>

datatype prisma_code = P2002 "string list" | P2025 | P2003

text \<open>
  JavaScript values as the handlers build them: a token and a password digest are strings
  of their own kinds, an object is the list of its properties.
\<close>

datatype jval =
    JNull | JUndefined | JBool bool | JNum rat | JStr string | JDate time
  | JToken token | JHash digest | JObj "(string \<times> jval) list" | JArr "jval list"

text \<open>
  What a handler can throw: \<open>AppError\<close> with message, status and itemised errors, a known
  request error of the ORM, or any other error with its message.
\<close>

datatype exn = AppError string nat "jval list" | PrismaKnown prisma_code | OtherError string

text \<open>
  A store call can also be rejected for a reason that is not in the data: a lost connection,
  a locked database. Where the source catches what a store call throws, or a claim speaks of
  a call that fails, the function takes as the input \<open>rejected\<close> whether the store rejects
  that call. A rejected call changes nothing.
\<close>

definition store_call :: "bool \<Rightarrow> (db \<Rightarrow> prisma_code + db) \<Rightarrow> db \<Rightarrow> exn + db" where
  "store_call rejected query d =
     (if rejected then Inl (OtherError ''Store error'')
      else (case query d of Inl c \<Rightarrow> Inl (PrismaKnown c) | Inr d' \<Rightarrow> Inr d'))"

subsection \<open>Queries on \<open>users\<close>\<close>

definition user_findUnique_email :: "string \<Rightarrow> db \<Rightarrow> user option" where
  "user_findUnique_email e d = find (\<lambda>u. u_email u = e) (users d)"

definition user_findUnique_id :: "string \<Rightarrow> db \<Rightarrow> user option" where
  "user_findUnique_id i d = find (\<lambda>u. u_id u = i) (users d)"

definition user_create :: "user \<Rightarrow> db \<Rightarrow> prisma_code + db" where
  "user_create u d =
     (if u_id u \<in> set (map u_id (users d)) then Inl (P2002 [''id''])
      else if u_email u \<in> set (map u_email (users d)) then Inl (P2002 [''email''])
      else Inr (d\<lparr>users := users d @ [u]\<rparr>))"

definition user_update :: "string \<Rightarrow> (user \<Rightarrow> user) \<Rightarrow> time \<Rightarrow> db \<Rightarrow> prisma_code + db" where
  "user_update i f now d =
     (case user_findUnique_id i d of
        None \<Rightarrow> Inl P2025
      | Some u \<Rightarrow>
          Inr (d\<lparr>users := map (\<lambda>x. if u_id x = i then (f x)\<lparr>u_updatedAt := now\<rparr> else x) (users d)\<rparr>))"

subsection \<open>Queries on \<open>refresh_tokens\<close>\<close>

definition refreshToken_create :: "refresh_row \<Rightarrow> db \<Rightarrow> prisma_code + db" where
  "refreshToken_create r d =
     (if rt_id r \<in> set (map rt_id (refreshTokens d)) then Inl (P2002 [''id''])
      else if rt_token r \<in> set (map rt_token (refreshTokens d)) then Inl (P2002 [''token''])
      else if rt_userId r \<notin> set (map u_id (users d)) then Inl P2003
      else Inr (d\<lparr>refreshTokens := refreshTokens d @ [r]\<rparr>))"

text \<open>
  \<open>findUnique\<close> with \<open>include: { user: true }\<close>: the row and the user it belongs to.
  The relation is required, so a row without its user makes the client throw.
\<close>

definition refreshToken_findUnique :: "token \<Rightarrow> db \<Rightarrow> exn + (refresh_row \<times> user) option" where
  "refreshToken_findUnique t d =
     (case find (\<lambda>r. rt_token r = t) (refreshTokens d) of
        None \<Rightarrow> Inr None
      | Some r \<Rightarrow>
          (case user_findUnique_id (rt_userId r) d of
             None \<Rightarrow> Inl (OtherError ''Inconsistent query result'')
           | Some u \<Rightarrow> Inr (Some (r, u))))"

definition refreshToken_delete_id :: "string \<Rightarrow> db \<Rightarrow> prisma_code + db" where
  "refreshToken_delete_id i d =
     (if i \<in> set (map rt_id (refreshTokens d))
      then Inr (d\<lparr>refreshTokens := filter (\<lambda>r. rt_id r \<noteq> i) (refreshTokens d)\<rparr>)
      else Inl P2025)"

definition refreshToken_delete_token :: "token \<Rightarrow> db \<Rightarrow> prisma_code + db" where
  "refreshToken_delete_token t d =
     (if t \<in> set (map rt_token (refreshTokens d))
      then Inr (d\<lparr>refreshTokens := filter (\<lambda>r. rt_token r \<noteq> t) (refreshTokens d)\<rparr>)
      else Inl P2025)"

text \<open>\<open>deleteMany\<close> deletes what matches and succeeds also when nothing does.\<close>

definition refreshToken_deleteMany_userId :: "string \<Rightarrow> db \<Rightarrow> db" where
  "refreshToken_deleteMany_userId i d =
     d\<lparr>refreshTokens := filter (\<lambda>r. rt_userId r \<noteq> i) (refreshTokens d)\<rparr>"

subsection \<open>Queries on \<open>password_reset_tokens\<close>\<close>

definition passwordResetToken_create :: "reset_row \<Rightarrow> db \<Rightarrow> prisma_code + db" where
  "passwordResetToken_create r d =
     (if prt_id r \<in> set (map prt_id (passwordResetTokens d)) then Inl (P2002 [''id''])
      else if prt_token r \<in> set (map prt_token (passwordResetTokens d))
        then Inl (P2002 [''token''])
      else if prt_userId r \<notin> set (map u_id (users d)) then Inl P2003
      else Inr (d\<lparr>passwordResetTokens := passwordResetTokens d @ [r]\<rparr>))"

definition passwordResetToken_findUnique :: "string \<Rightarrow> db \<Rightarrow> exn + (reset_row \<times> user) option" where
  "passwordResetToken_findUnique t d =
     (case find (\<lambda>r. prt_token r = t) (passwordResetTokens d) of
        None \<Rightarrow> Inr None
      | Some r \<Rightarrow>
          (case user_findUnique_id (prt_userId r) d of
             None \<Rightarrow> Inl (OtherError ''Inconsistent query result'')
           | Some u \<Rightarrow> Inr (Some (r, u))))"

definition passwordResetToken_delete_id :: "string \<Rightarrow> db \<Rightarrow> prisma_code + db" where
  "passwordResetToken_delete_id i d =
     (if i \<in> set (map prt_id (passwordResetTokens d))
      then Inr (d\<lparr>passwordResetTokens := filter (\<lambda>r. prt_id r \<noteq> i) (passwordResetTokens d)\<rparr>)
      else Inl P2025)"

definition passwordResetToken_delete_token :: "string \<Rightarrow> db \<Rightarrow> prisma_code + db" where
  "passwordResetToken_delete_token t d =
     (if t \<in> set (map prt_token (passwordResetTokens d))
      then Inr (d\<lparr>passwordResetTokens :=
                  filter (\<lambda>r. prt_token r \<noteq> t) (passwordResetTokens d)\<rparr>)
      else Inl P2025)"

section \<open>The token service (\<open>class AuthService\<close>)\<close>

definition hashPassword :: "config \<Rightarrow> string \<Rightarrow> string \<Rightarrow> digest" where
  "hashPassword cfg salt password = bcrypt_hash password (SALT_ROUNDS cfg) salt"

definition comparePassword :: "string \<Rightarrow> digest \<Rightarrow> bool" where
  "comparePassword password hash = bcrypt_compare password hash"

definition generateAccessToken :: "config \<Rightarrow> time \<Rightarrow> JWTPayload \<Rightarrow> token" where
  "generateAccessToken cfg now payload =
     jwt_sign payload (JWT_SECRET cfg) (JWT_EXPIRES_IN cfg)
       ''freelance-marketplace'' ''freelance-marketplace-app'' now"

definition generateRefreshToken :: "config \<Rightarrow> time \<Rightarrow> JWTPayload \<Rightarrow> token" where
  "generateRefreshToken cfg now payload =
     jwt_sign payload (JWT_REFRESH_SECRET cfg) (JWT_REFRESH_EXPIRES_IN cfg)
       ''freelance-marketplace'' ''freelance-marketplace-app'' now"

record TokenPair =
  accessToken :: token
  refreshToken :: token

text \<open>
  A result is a value or the exception thrown, together with the store as the call leaves
  it. \<open>newId\<close> is the primary key the ORM generates for the new row.
\<close>

definition generateTokenPair ::
  "config \<Rightarrow> time \<Rightarrow> string \<Rightarrow> user \<Rightarrow> db \<Rightarrow> (exn + TokenPair) \<times> db" where
  "generateTokenPair cfg now newId usr d =
     (let payload = \<lparr>userId = u_id usr, email = u_email usr, role = u_role usr\<rparr>;
          access = generateAccessToken cfg now payload;
          refresh = generateRefreshToken cfg now payload
      in case refreshToken_create
                \<lparr>rt_id = newId, rt_token = refresh, rt_userId = u_id usr,
                 rt_expiresAt = now + 7 * 24 * 60 * 60 * 1000, rt_createdAt = now\<rparr> d of
           Inl e \<Rightarrow> (Inl (PrismaKnown e), d)
         | Inr d' \<Rightarrow> (Inr \<lparr>accessToken = access, refreshToken = refresh\<rparr>, d'))"

definition verifyAccessToken :: "config \<Rightarrow> time \<Rightarrow> token \<Rightarrow> claims option" where
  "verifyAccessToken cfg now tok =
     jwt_verify tok (JWT_SECRET cfg) ''freelance-marketplace'' ''freelance-marketplace-app'' now"

definition verifyRefreshToken :: "config \<Rightarrow> time \<Rightarrow> token \<Rightarrow> claims option" where
  "verifyRefreshToken cfg now tok =
     jwt_verify tok (JWT_REFRESH_SECRET cfg)
       ''freelance-marketplace'' ''freelance-marketplace-app'' now"

definition refreshAccessToken ::
  "config \<Rightarrow> time \<Rightarrow> token \<Rightarrow> db \<Rightarrow> (exn + token option) \<times> db" where
  "refreshAccessToken cfg now tok d =
     (case verifyRefreshToken cfg now tok of
        None \<Rightarrow> (Inr None, d)
      | Some payload \<Rightarrow>
          (case refreshToken_findUnique tok d of
             Inl e \<Rightarrow> (Inl e, d)
           | Inr None \<Rightarrow> (Inr None, d)
           | Inr (Some (storedToken, usr)) \<Rightarrow>
               if rt_expiresAt storedToken < now then
                 (case refreshToken_delete_id (rt_id storedToken) d of
                    Inl e \<Rightarrow> (Inl (PrismaKnown e), d)
                  | Inr d' \<Rightarrow> (Inr None, d'))
               else
                 (Inr (Some (generateAccessToken cfg now
                    \<lparr>userId = u_id usr, email = u_email usr, role = u_role usr\<rparr>)), d)))"

text \<open>
  The two revocations and \<open>consumePasswordResetToken\<close> catch whatever the store call throws
  and return false. For \<open>delete\<close> that is a missing row or a rejected call, for
  \<open>deleteMany\<close> a rejected call only.
\<close>

definition revokeRefreshToken :: "bool \<Rightarrow> token \<Rightarrow> db \<Rightarrow> bool \<times> db" where
  "revokeRefreshToken rejected tok d =
     (case store_call rejected (refreshToken_delete_token tok) d of
        Inr d' \<Rightarrow> (True, d')
      | Inl e \<Rightarrow> (False, d))"

definition revokeAllUserTokens :: "bool \<Rightarrow> string \<Rightarrow> db \<Rightarrow> bool \<times> db" where
  "revokeAllUserTokens rejected i d =
     (case store_call rejected (\<lambda>d. Inr (refreshToken_deleteMany_userId i d)) d of
        Inr d' \<Rightarrow> (True, d')
      | Inl e \<Rightarrow> (False, d))"

text \<open>\<open>uuid\<close> is the value \<open>uuidv4()\<close> returns.\<close>

definition generatePasswordResetToken ::
  "time \<Rightarrow> string \<Rightarrow> string \<Rightarrow> string \<Rightarrow> db \<Rightarrow> (exn + string) \<times> db" where
  "generatePasswordResetToken now newId uuid i d =
     (case passwordResetToken_create
             \<lparr>prt_id = newId, prt_token = uuid, prt_userId = i,
              prt_expiresAt = now + 60 * 60 * 1000, prt_createdAt = now\<rparr> d of
        Inl e \<Rightarrow> (Inl (PrismaKnown e), d)
      | Inr d' \<Rightarrow> (Inr uuid, d'))"

definition verifyPasswordResetToken :: "time \<Rightarrow> string \<Rightarrow> db \<Rightarrow> (exn + user option) \<times> db" where
  "verifyPasswordResetToken now t d =
     (case passwordResetToken_findUnique t d of
        Inl e \<Rightarrow> (Inl e, d)
      | Inr None \<Rightarrow> (Inr None, d)
      | Inr (Some (resetToken, usr)) \<Rightarrow>
          if prt_expiresAt resetToken < now then
            (case passwordResetToken_delete_id (prt_id resetToken) d of
               Inl e \<Rightarrow> (Inl (PrismaKnown e), d)
             | Inr d' \<Rightarrow> (Inr None, d'))
          else (Inr (Some usr), d))"

definition consumePasswordResetToken :: "bool \<Rightarrow> string \<Rightarrow> db \<Rightarrow> bool \<times> db" where
  "consumePasswordResetToken rejected t d =
     (case store_call rejected (passwordResetToken_delete_token t) d of
        Inr d' \<Rightarrow> (True, d')
      | Inl e \<Rightarrow> (False, d))"

subsection \<open>Queries on \<open>user_skills\<close>\<close>

text \<open>
  \<open>createMany\<close> inserts all rows or none; the index on \<open>(userId, skill)\<close> is unique.
\<close>

definition userSkill_createMany :: "skill_row list \<Rightarrow> db \<Rightarrow> prisma_code + db" where
  "userSkill_createMany rows d =
     (if \<not> distinct (map us_id (userSkills d @ rows)) then Inl (P2002 [''id''])
      else if \<not> distinct (map (\<lambda>r. (us_userId r, us_skill r)) (userSkills d @ rows))
        then Inl (P2002 [''userId'', ''skill''])
      else if \<not> list_all (\<lambda>r. us_userId r \<in> set (map u_id (users d))) rows then Inl P2003
      else Inr (d\<lparr>userSkills := userSkills d @ rows\<rparr>))"

section \<open>Responses and the error middleware\<close>

type_synonym obj = "(string \<times> jval) list"

record response =
  status :: nat
  body :: obj

text \<open>
  \<open>res.status(code).json(value)\<close>: serialisation drops the properties whose value is
  \<open>undefined\<close>.
\<close>

definition res_json :: "nat \<Rightarrow> obj \<Rightarrow> response" where
  "res_json code b = \<lparr>status = code, body = filter (\<lambda>kv. snd kv \<noteq> JUndefined) b\<rparr>"

definition has_key :: "string \<Rightarrow> obj \<Rightarrow> bool" where
  "has_key k b = (k \<in> set (map fst b))"

definition nullable :: "string option \<Rightarrow> jval" where
  "nullable v = (case v of None \<Rightarrow> JNull | Some s \<Rightarrow> JStr s)"

text \<open>A row of \<open>users\<close> as the object the ORM returns, one property for each column.\<close>

definition user_object :: "user \<Rightarrow> obj" where
  "user_object u =
     [(''id'', JStr (u_id u)), (''email'', JStr (u_email u)),
      (''firstName'', JStr (u_firstName u)), (''lastName'', JStr (u_lastName u)),
      (''avatar'', nullable (u_avatar u)), (''bio'', nullable (u_bio u)),
      (''hourlyRate'', (case u_hourlyRate u of None \<Rightarrow> JNull | Some r \<Rightarrow> JNum r)),
      (''location'', nullable (u_location u)), (''timezone'', nullable (u_timezone u)),
      (''role'', JStr (u_role u)), (''isEmailVerified'', JBool (u_isEmailVerified u)),
      (''isOnline'', JBool (u_isOnline u)), (''lastSeen'', JDate (u_lastSeen u)),
      (''passwordHash'', JHash (u_passwordHash u)),
      (''companyName'', nullable (u_companyName u)),
      (''companySize'', nullable (u_companySize u)),
      (''website'', nullable (u_website u)), (''github'', nullable (u_github u)),
      (''linkedin'', nullable (u_linkedin u)),
      (''portfolioData'', nullable (u_portfolioData u)),
      (''averageRating'', JNum (u_averageRating u)),
      (''totalReviews'', JNum (of_int (u_totalReviews u))),
      (''totalEarnings'', JNum (u_totalEarnings u)),
      (''totalSpent'', JNum (u_totalSpent u)),
      (''createdAt'', JDate (u_createdAt u)), (''updatedAt'', JDate (u_updatedAt u))]"

text \<open>
  \<open>select\<close> keeps the listed properties; the rest pattern
  \<open>const { passwordHash, ...userWithoutPassword } = user\<close> drops one.
\<close>

definition select_keys :: "string list \<Rightarrow> obj \<Rightarrow> obj" where
  "select_keys ks b = filter (\<lambda>kv. fst kv \<in> set ks) b"

definition omit_key :: "string \<Rightarrow> obj \<Rightarrow> obj" where
  "omit_key k b = filter (\<lambda>kv. fst kv \<noteq> k) b"

text \<open>
  \<open>errorHandler\<close>, on the errors the authentication handlers throw. None of them has one
  of the names the handler matches on (\<open>JsonWebTokenError\<close>, \<open>TokenExpiredError\<close>,
  \<open>ValidationError\<close>, \<open>MulterError\<close>), so those branches are not entered. Logging is
  no part of the response.
\<close>

definition errorHandler :: "config \<Rightarrow> exn \<Rightarrow> response" where
  "errorHandler cfg error =
     (let (statusCode, message, errors) =
            (case error of
               AppError m code es \<Rightarrow>
                 (if code = 0 then 500 else code,
                  if m = [] then ''Internal Server Error'' else m, es)
             | PrismaKnown c \<Rightarrow>
                 (case c of
                    P2002 target \<Rightarrow>
                      (409, (case target of [] \<Rightarrow> ''undefined'' | field # rest \<Rightarrow> field)
                              @ '' already exists'', [])
                  | P2025 \<Rightarrow> (404, ''Resource not found'', [])
                  | P2003 \<Rightarrow> (400, ''Invalid reference'', []))
             | OtherError m \<Rightarrow> (500, if m = [] then ''Internal Server Error'' else m, []));
          production = (NODE_ENV cfg = Some ''production'' \<and> statusCode = 500);
          message' = (if production then ''Something went wrong'' else message);
          errors' = (if production then [] else errors)
      in res_json statusCode
           ([(''success'', JBool False), (''message'', JStr message')]
            @ (if errors' \<noteq> [] then [(''errors'', JArr errors')] else [])))"

text \<open>
  \<open>asyncHandler\<close> routes what the handler throws to the error middleware; the store
  stays as the handler left it.
\<close>

definition asyncHandler :: "config \<Rightarrow> (exn + response) \<times> db \<Rightarrow> response \<times> db" where
  "asyncHandler cfg r =
     (case r of (Inl e, d) \<Rightarrow> (errorHandler cfg e, d) | (Inr resp, d) \<Rightarrow> (resp, d))"

section \<open>The authentication endpoints\<close>

text \<open>
  The validation chains of express-validator run before each handler and are outside the
  repository: a handler takes the request body as the chains left it (the address
  normalised, the names trimmed) and \<open>errors\<close>, the result of \<open>validationResult\<close>.
\<close>

record register_body =
  rb_email :: string
  rb_password :: string
  rb_firstName :: string
  rb_lastName :: string
  rb_role :: string
  rb_hourlyRate :: "rat option"
  rb_bio :: "string option"
  rb_skills :: "string list option"
  rb_companyName :: "string option"
  rb_companySize :: "string option"

text \<open>
  \<open>String.prototype.trim\<close> removes white space and line terminators from both ends:
  U+0009 to U+000D, U+0020, U+00A0, U+1680, U+2000 to U+200A, U+2028, U+2029, U+202F,
  U+205F, U+3000 and U+FEFF. Strings are byte strings, so each is its UTF-8 encoding.
\<close>

definition white_space :: "string list" where
  "white_space =
     map (\<lambda>c. [c]) [CHR 0x09, CHR 0x0A, CHR 0x0B, CHR 0x0C, CHR 0x0D, CHR 0x20]
     @ [[CHR 0xC2, CHR 0xA0], [CHR 0xE1, CHR 0x9A, CHR 0x80]]
     @ map (\<lambda>c. [CHR 0xE2, CHR 0x80, c])
         [CHR 0x80, CHR 0x81, CHR 0x82, CHR 0x83, CHR 0x84, CHR 0x85, CHR 0x86, CHR 0x87,
          CHR 0x88, CHR 0x89, CHR 0x8A, CHR 0xA8, CHR 0xA9, CHR 0xAF]
     @ [[CHR 0xE2, CHR 0x81, CHR 0x9F], [CHR 0xE3, CHR 0x80, CHR 0x80],
        [CHR 0xEF, CHR 0xBB, CHR 0xBF]]"

text \<open>Removing from the front of a string, as long as one of the given sequences leads it.\<close>

function strip :: "string list \<Rightarrow> string \<Rightarrow> string" where
  "strip ws s =
     (case find (\<lambda>w. w \<noteq> [] \<and> take (length w) s = w) ws of
        None \<Rightarrow> s
      | Some w \<Rightarrow> strip ws (drop (length w) s))"
  by pat_completeness auto
termination
proof (relation "measure (\<lambda>(ws, s). length s)")
  show "wf (measure (\<lambda>(ws, s). length s))" by simp
next
  fix ws :: "string list" and s w :: string
  assume "find (\<lambda>w. w \<noteq> [] \<and> take (length w) s = w) ws = Some w"
  then have "w \<noteq> [] \<and> take (length w) s = w"
    by (induction ws) (auto split: if_splits)
  then have "0 < length w" "length w \<le> length s"
    by (auto, metis length_take min.cobounded2 min.commute)
  then show "((ws, drop (length w) s), (ws, s)) \<in> measure (\<lambda>(ws, s). length s)"
    by (simp del: length_greater_0_conv)
qed

declare strip.simps [simp del]

definition trim :: "string \<Rightarrow> string" where
  "trim s = rev (strip (map rev white_space) (rev (strip white_space s)))"

text \<open>JavaScript truthiness of an optional string and of an optional number.\<close>

definition truthy_str :: "string option \<Rightarrow> bool" where
  "truthy_str v = (case v of None \<Rightarrow> False | Some s \<Rightarrow> s \<noteq> [])"

definition truthy_num :: "rat option \<Rightarrow> bool" where
  "truthy_num v = (case v of None \<Rightarrow> False | Some r \<Rightarrow> r \<noteq> 0)"

text \<open>
  The row \<open>tx.user.create\<close> inserts: \<open>userData\<close> of the handler, the generated key, and
  the defaults of the schema for the other columns.
\<close>

definition userData :: "register_body \<Rightarrow> digest \<Rightarrow> string \<Rightarrow> time \<Rightarrow> user" where
  "userData b passwordHash newId now =
     \<lparr>u_id = newId, u_email = rb_email b, u_firstName = rb_firstName b,
      u_lastName = rb_lastName b, u_avatar = None,
      u_bio = (if rb_role b = ''FREELANCER'' then rb_bio b else None),
      u_hourlyRate = (if rb_role b = ''FREELANCER'' then rb_hourlyRate b else None),
      u_location = None, u_timezone = None, u_role = rb_role b,
      u_isEmailVerified = False, u_isOnline = False, u_lastSeen = now,
      u_passwordHash = passwordHash,
      u_companyName =
        (if rb_role b = ''CLIENT'' \<and> truthy_str (rb_companyName b)
         then rb_companyName b else None),
      u_companySize =
        (if rb_role b = ''CLIENT'' \<and> truthy_str (rb_companyName b)
              \<and> truthy_str (rb_companySize b)
         then rb_companySize b else None),
      u_website = None, u_github = None, u_linkedin = None, u_portfolioData = None,
      u_averageRating = 0, u_totalReviews = 0, u_totalEarnings = 0, u_totalSpent = 0,
      u_createdAt = now, u_updatedAt = now\<rparr>"

definition registered_fields :: "string list" where
  "registered_fields =
     [''id'', ''email'', ''firstName'', ''lastName'', ''role'', ''avatar'', ''bio'',
      ''isEmailVerified'', ''averageRating'', ''totalReviews'', ''hourlyRate'',
      ''companyName'', ''companySize'', ''createdAt'']"

text \<open>
  The transaction of the register handler: the user row, then the skill rows of a
  freelancer; an error in either leaves the store as it was. \<open>skillIds\<close> are the keys
  generated for the skill rows, one for each skill.
\<close>

definition register_transaction ::
  "register_body \<Rightarrow> user \<Rightarrow> string list \<Rightarrow> db \<Rightarrow> prisma_code + db" where
  "register_transaction b newUser skillIds d =
     (case user_create newUser d of
        Inl e \<Rightarrow> Inl e
      | Inr d1 \<Rightarrow>
          (case rb_skills b of
             Some skills \<Rightarrow>
               if rb_role b = ''FREELANCER'' then
                 userSkill_createMany
                   (map (\<lambda>(i, skill). \<lparr>us_id = i, us_userId = u_id newUser, us_skill = trim skill\<rparr>)
                      (zip skillIds skills)) d1
               else Inr d1
           | None \<Rightarrow> Inr d1))"

definition register_handler ::
  "config \<Rightarrow> time \<Rightarrow> string \<Rightarrow> string \<Rightarrow> string list \<Rightarrow> string \<Rightarrow> jval list \<Rightarrow> register_body
     \<Rightarrow> db \<Rightarrow> (exn + response) \<times> db" where
  "register_handler cfg now salt newUserId skillIds newTokenId errors b d =
     (if errors \<noteq> [] then (Inl (AppError ''Validation failed'' 400 errors), d)
      else if rb_role b = ''FREELANCER'' \<and> \<not> truthy_num (rb_hourlyRate b)
        then (Inl (AppError ''Hourly rate is required for freelancers'' 400 []), d)
      else if rb_role b = ''FREELANCER'' \<and> \<not> truthy_str (rb_bio b)
        then (Inl (AppError ''Bio is required for freelancers'' 400 []), d)
      else if rb_role b = ''CLIENT'' \<and> \<not> truthy_str (rb_companyName b)
        then (Inl (AppError ''Company name is required for clients'' 400 []), d)
      else
        (case user_findUnique_email (rb_email b) d of
           Some existingUser \<Rightarrow>
             (Inl (AppError ''User with this email or username already exists'' 409 []), d)
         | None \<Rightarrow>
             (let passwordHash = hashPassword cfg salt (rb_password b);
                  newUser = userData b passwordHash newUserId now
              in case register_transaction b newUser skillIds d of
                   Inl e \<Rightarrow> (Inl (PrismaKnown e), d)
                 | Inr d1 \<Rightarrow>
                     (case generateTokenPair cfg now newTokenId newUser d1 of
                        (Inl e, d2) \<Rightarrow> (Inl e, d2)
                      | (Inr tokens, d2) \<Rightarrow>
                          (Inr (res_json 201
                             [(''success'', JBool True),
                              (''message'', JStr ''User registered successfully''),
                              (''data'', JObj
                                 [(''user'', JObj (select_keys registered_fields
                                                    (user_object newUser))),
                                  (''accessToken'', JToken (accessToken tokens)),
                                  (''refreshToken'', JToken (refreshToken tokens))])]),
                           d2)))))"

definition login_handler ::
  "config \<Rightarrow> time \<Rightarrow> string \<Rightarrow> jval list \<Rightarrow> string \<Rightarrow> string \<Rightarrow> db \<Rightarrow> (exn + response) \<times> db" where
  "login_handler cfg now newTokenId errors mail password d =
     (if errors \<noteq> [] then (Inl (AppError ''Validation failed'' 400 errors), d)
      else
        (case user_findUnique_email mail d of
           None \<Rightarrow> (Inl (AppError ''Invalid email or password'' 401 []), d)
         | Some usr \<Rightarrow>
             if \<not> comparePassword password (u_passwordHash usr)
             then (Inl (AppError ''Invalid email or password'' 401 []), d)
             else
               (case user_update (u_id usr)
                       (\<lambda>u. u\<lparr>u_lastSeen := now, u_isOnline := True\<rparr>) now d of
                  Inl e \<Rightarrow> (Inl (PrismaKnown e), d)
                | Inr d1 \<Rightarrow>
                    (case generateTokenPair cfg now newTokenId usr d1 of
                       (Inl e, d2) \<Rightarrow> (Inl e, d2)
                     | (Inr tokens, d2) \<Rightarrow>
                         (Inr (res_json 200
                            [(''success'', JBool True), (''message'', JStr ''Login successful''),
                             (''data'', JObj
                                [(''user'', JObj (omit_key ''passwordHash'' (user_object usr))),
                                 (''accessToken'', JToken (accessToken tokens)),
                                 (''refreshToken'', JToken (refreshToken tokens))])]),
                          d2)))))"

definition forgot_password_handler ::
  "config \<Rightarrow> time \<Rightarrow> string \<Rightarrow> string \<Rightarrow> jval list \<Rightarrow> string \<Rightarrow> db \<Rightarrow> (exn + response) \<times> db" where
  "forgot_password_handler cfg now newId uuid errors mail d =
     (if errors \<noteq> [] then (Inl (AppError ''Validation failed'' 400 errors), d)
      else
        (case user_findUnique_email mail d of
           None \<Rightarrow> (Inl (AppError ''User not found'' 404 []), d)
         | Some usr \<Rightarrow>
             (case generatePasswordResetToken now newId uuid (u_id usr) d of
                (Inl e, d1) \<Rightarrow> (Inl e, d1)
              | (Inr resetToken, d1) \<Rightarrow>
                  (Inr (res_json 200
                     [(''success'', JBool True), (''message'', JStr ''Password reset email sent''),
                      (''resetToken'',
                         if NODE_ENV cfg = Some ''development'' then JStr resetToken
                         else JUndefined)]),
                   d1))))"

text \<open>
  The last step of the reset handler awaits three store calls issued together. After a
  successful verification none of them can fail on the data of a store that satisfies its
  constraints, so the handler takes as an input which of the three the store rejects for
  another reason (a lost connection, a locked database, a row removed by another request
  in between). A rejected update of the user throws, while \<open>consumePasswordResetToken\<close>
  and \<open>revokeAllUserTokens\<close> catch the error and return false.
\<close>

record store_failures =
  updateFails :: bool
  consumeFails :: bool
  revokeFails :: bool

definition reset_password_handler ::
  "config \<Rightarrow> time \<Rightarrow> string \<Rightarrow> store_failures \<Rightarrow> jval list \<Rightarrow> string \<Rightarrow> string \<Rightarrow> db
     \<Rightarrow> (exn + response) \<times> db" where
  "reset_password_handler cfg now salt fails errors resetToken newPassword d =
     (if errors \<noteq> [] then (Inl (AppError ''Validation failed'' 400 errors), d)
      else
        (case verifyPasswordResetToken now resetToken d of
           (Inl e, d0) \<Rightarrow> (Inl e, d0)
         | (Inr None, d0) \<Rightarrow> (Inl (AppError ''Invalid or expired reset token'' 400 []), d0)
         | (Inr (Some usr), d0) \<Rightarrow>
             (let passwordHash = hashPassword cfg salt newPassword;
                  (updated, d1) =
                     (case store_call (updateFails fails)
                             (user_update (u_id usr)
                                (\<lambda>u. u\<lparr>u_passwordHash := passwordHash\<rparr>) now) d0 of
                        Inl e \<Rightarrow> (Inl e, d0)
                      | Inr d' \<Rightarrow> (Inr (), d'));
                  (consumed, d2) = consumePasswordResetToken (consumeFails fails) resetToken d1;
                  (revoked, d3) = revokeAllUserTokens (revokeFails fails) (u_id usr) d2
              in case updated of
                   Inl e \<Rightarrow> (Inl e, d3)
                 | Inr u \<Rightarrow>
                     (Inr (res_json 200
                        [(''success'', JBool True),
                         (''message'', JStr ''Password reset successful'')]),
                      d3))))"

section \<open>The authentication middleware\<close>

text \<open>
  The identity attached to a request (\<open>req.user\<close>), and the part of a request the
  middleware reads. The \<open>Authorization\<close> header is kept as its first seven characters and
  the token that the remainder decodes to.
\<close>

record identity =
  ru_id :: string
  ru_email :: string
  ru_firstName :: string
  ru_lastName :: string
  ru_role :: string
  ru_isEmailVerified :: bool

record request =
  authorization :: "(string \<times> token) option"
  req_user :: "identity option"
  ip :: "string option"

text \<open>A middleware either sends a response or calls \<open>next()\<close> with the request.\<close>

datatype middleware_result = Responded response | Next request

definition selected_identity :: "user \<Rightarrow> identity" where
  "selected_identity u =
     \<lparr>ru_id = u_id u, ru_email = u_email u, ru_firstName = u_firstName u,
      ru_lastName = u_lastName u, ru_role = u_role u,
      ru_isEmailVerified = u_isEmailVerified u\<rparr>"

definition unauthorized :: "string \<Rightarrow> response" where
  "unauthorized message = res_json 401 [(''success'', JBool False), (''message'', JStr message)]"

definition authenticate :: "config \<Rightarrow> time \<Rightarrow> request \<Rightarrow> db \<Rightarrow> middleware_result" where
  "authenticate cfg now req d =
     (case authorization req of
        None \<Rightarrow> Responded (unauthorized ''Access token required'')
      | Some (scheme, tok) \<Rightarrow>
          if scheme \<noteq> ''Bearer '' then Responded (unauthorized ''Access token required'')
          else
            (case verifyAccessToken cfg now tok of
               None \<Rightarrow> Responded (unauthorized ''Invalid or expired token'')
             | Some payload \<Rightarrow>
                 (case user_findUnique_id (userId payload) d of
                    None \<Rightarrow> Responded (unauthorized ''User not found'')
                  | Some u \<Rightarrow> Next (req\<lparr>req_user := Some (selected_identity u)\<rparr>))))"

definition optionalAuth :: "config \<Rightarrow> time \<Rightarrow> request \<Rightarrow> db \<Rightarrow> middleware_result" where
  "optionalAuth cfg now req d =
     (case authorization req of
        None \<Rightarrow> Next req
      | Some (scheme, tok) \<Rightarrow>
          if scheme \<noteq> ''Bearer '' then Next req
          else
            (case verifyAccessToken cfg now tok of
               None \<Rightarrow> Next req
             | Some payload \<Rightarrow>
                 (case user_findUnique_id (userId payload) d of
                    None \<Rightarrow> Next req
                  | Some u \<Rightarrow> Next (req\<lparr>req_user := Some (selected_identity u)\<rparr>))))"

subsection \<open>The rate limiter\<close>

record limit_entry =
  count :: int
  resetTime :: time

type_synonym limiter = "string \<rightharpoonup> limit_entry"

text \<open>\<open>req.user?.id || req.ip || 'anonymous'\<close>: an empty string is falsy.\<close>

definition limiter_key :: "request \<Rightarrow> string" where
  "limiter_key req =
     (if truthy_str (map_option ru_id (req_user req)) then ru_id (the (req_user req))
      else if truthy_str (ip req) then the (ip req)
      else ''anonymous'')"

definition rateLimitByUser ::
  "int \<Rightarrow> int \<Rightarrow> request \<Rightarrow> time \<Rightarrow> limiter \<Rightarrow> middleware_result \<times> limiter" where
  "rateLimitByUser maxRequests windowMs req now requests =
     (let key = limiter_key req;
          fresh = requests(key \<mapsto> \<lparr>count = 1, resetTime = now + windowMs\<rparr>)
      in case requests key of
           None \<Rightarrow> (Next req, fresh)
         | Some userRequests \<Rightarrow>
             if now > resetTime userRequests then (Next req, fresh)
             else if count userRequests \<ge> maxRequests then
               (Responded (res_json 429
                  [(''success'', JBool False), (''message'', JStr ''Too many requests'')]),
                requests)
             else
               (Next req, requests(key \<mapsto> userRequests\<lparr>count := count userRequests + 1\<rparr>)))"

text \<open>
  A run of the limiter over requests with their arrival times, counting the requests of
  one key that are passed on.
\<close>

fun passed :: "int \<Rightarrow> int \<Rightarrow> string \<Rightarrow> (request \<times> time) list \<Rightarrow> limiter \<Rightarrow> nat" where
  "passed maxRequests windowMs key [] requests = 0"
| "passed maxRequests windowMs key ((req, now) # rest) requests =
     (case rateLimitByUser maxRequests windowMs req now requests of
        (Next r, requests') \<Rightarrow>
          (if limiter_key req = key then 1 else 0)
            + passed maxRequests windowMs key rest requests'
      | (Responded r, requests') \<Rightarrow> passed maxRequests windowMs key rest requests')"

subsection \<open>Reading a response\<close>

text \<open>\<open>value.key\<close>, which is \<open>undefined\<close> where there is no such property.\<close>

definition property :: "string \<Rightarrow> jval \<Rightarrow> jval" where
  "property k v =
     (case v of
        JObj b \<Rightarrow> (case map_of b k of Some x \<Rightarrow> x | None \<Rightarrow> JUndefined)
      | _ \<Rightarrow> JUndefined)"

text \<open>
  The user object of a register or login response: \<open>body.data.user\<close>.
\<close>

definition response_user :: "response \<Rightarrow> jval" where
  "response_user resp = property ''user'' (property ''data'' (JObj (body resp)))"

text \<open>
  The body of the response to a rate-limited request.
\<close>

definition too_many :: response where
  "too_many = \<lparr>status = 429, body = [(''success'', JBool False), (''message'', JStr ''Too many requests'')]\<rparr>"

section \<open>Example data\<close>

text \<open>
  The configuration of a development build with the default lifetimes, and one whose
  refresh tokens are signed for thirty days while the stored rows keep their seven.
\<close>

definition cfg0 :: config where
  "cfg0 = \<lparr>SALT_ROUNDS = 12, JWT_SECRET = ''access-secret'',
     JWT_REFRESH_SECRET = ''refresh-secret'', JWT_EXPIRES_IN = 3600,
     JWT_REFRESH_EXPIRES_IN = 604800, NODE_ENV = Some ''development''\<rparr>"

definition cfg_long :: config where
  "cfg_long = cfg0\<lparr>JWT_REFRESH_EXPIRES_IN := 2592000\<rparr>"

text \<open>The registration of the scenario in the specification, and the user it creates.\<close>

definition acme_body :: register_body where
  "acme_body = \<lparr>rb_email = ''a@b.com'', rb_password = ''Abcdef12'', rb_firstName = ''A'',
     rb_lastName = ''B'', rb_role = ''CLIENT'', rb_hourlyRate = None, rb_bio = None,
     rb_skills = None, rb_companyName = Some ''Acme'', rb_companySize = None\<rparr>"

definition acme :: user where
  "acme = userData acme_body (hashPassword cfg0 ''salt'' ''Abcdef12'') ''u1'' 0"

definition acme_payload :: JWTPayload where
  "acme_payload = \<lparr>userId = ''u1'', email = ''a@b.com'', role = ''CLIENT''\<rparr>"

text \<open>
  A store in which the user has become an administrator since the refresh token was
  issued at time 0.
\<close>

definition old_row :: refresh_row where
  "old_row = \<lparr>rt_id = ''r1'', rt_token = generateRefreshToken cfg_long 0 acme_payload,
     rt_userId = ''u1'', rt_expiresAt = 604800000, rt_createdAt = 0\<rparr>"

definition db_promoted :: db where
  "db_promoted = \<lparr>users = [acme\<lparr>u_role := ''ADMIN''\<rparr>], userSkills = [],
     refreshTokens = [old_row], passwordResetTokens = []\<rparr>"

text \<open>
  Builds for the test suite and for production.
\<close>

definition cfg_test :: config where "cfg_test = cfg0\<lparr>NODE_ENV := Some ''test''\<rparr>"

definition cfg_prod :: config where "cfg_prod = cfg0\<lparr>NODE_ENV := Some ''production''\<rparr>"

text \<open>
  An empty store, the registration of the scenario into it at time 1000, and a store that
  holds the user alone.
\<close>

definition db_empty :: db where
  "db_empty = \<lparr>users = [], userSkills = [], refreshTokens = [], passwordResetTokens = []\<rparr>"

definition registered :: "(exn + response) \<times> db" where
  "registered = register_handler cfg0 1000 ''salt'' ''u1'' [] ''r1'' [] acme_body db_empty"

definition db_acme :: db where
  "db_acme = \<lparr>users = [acme], userSkills = [], refreshTokens = [], passwordResetTokens = []\<rparr>"

text \<open>
  A freelancer whose two skills differ by a trailing no-break space (U+00A0).
\<close>

definition dev_body :: register_body where
  "dev_body = \<lparr>rb_email = ''dev@b.com'', rb_password = ''Abcdef12'', rb_firstName = ''D'',
     rb_lastName = ''E'', rb_role = ''FREELANCER'', rb_hourlyRate = Some 25,
     rb_bio = Some ''Builds things.'',
     rb_skills = Some [''a'', [CHR ''a'', CHR 0xC2, CHR 0xA0]],
     rb_companyName = None, rb_companySize = None\<rparr>"

text \<open>
  Two passwords of 73 bytes that differ in the last one.
\<close>

definition long_b :: string where "long_b = replicate 72 (CHR ''a'') @ ''b''"

definition long_c :: string where "long_c = replicate 72 (CHR ''a'') @ ''c''"

text \<open>
  A store in which the user has one session and one outstanding reset token, and two
  ways the store can fail during the reset.
\<close>

definition reset_row1 :: reset_row where
  "reset_row1 = \<lparr>prt_id = ''p1'', prt_token = ''uuid-1'', prt_userId = ''u1'',
     prt_expiresAt = 3600000, prt_createdAt = 0\<rparr>"

definition session_row :: refresh_row where
  "session_row = \<lparr>rt_id = ''r1'', rt_token = generateRefreshToken cfg0 0 acme_payload,
     rt_userId = ''u1'', rt_expiresAt = 604800000, rt_createdAt = 0\<rparr>"

definition db_reset :: db where
  "db_reset = \<lparr>users = [acme], userSkills = [], refreshTokens = [session_row],
     passwordResetTokens = [reset_row1]\<rparr>"

definition update_rejected :: store_failures where
  "update_rejected = \<lparr>updateFails = True, consumeFails = False, revokeFails = False\<rparr>"

definition consume_rejected :: store_failures where
  "consume_rejected = \<lparr>updateFails = False, consumeFails = True, revokeFails = False\<rparr>"

text \<open>
  Requests: one without a header, one with a bearer token; and the payload of a user the
  store does not have.
\<close>

definition anon :: request where
  "anon = \<lparr>authorization = None, req_user = None, ip = None\<rparr>"

definition bearer :: "token \<Rightarrow> request" where
  "bearer tok = \<lparr>authorization = Some (''Bearer '', tok), req_user = None, ip = None\<rparr>"

definition ghost_payload :: JWTPayload where
  "ghost_payload = \<lparr>userId = ''u9'', email = ''ghost@b.com'', role = ''CLIENT''\<rparr>"

section \<open>Properties of the token service\<close>

lemmas ex_defs = cfg0_def cfg_long_def acme_body_def acme_def acme_payload_def old_row_def
  db_promoted_def userData_def hashPassword_def generateRefreshToken_def
  generateAccessToken_def jwt_sign_def verifyRefreshToken_def jwt_verify_def
  user_findUnique_id_def db_ok_def truthy_str_def

lemma find_Some_mem: "find P xs = Some x \<Longrightarrow> x \<in> set xs \<and> P x"
  by (induction xs) (auto split: if_splits)

lemma find_filter_token_None:
  assumes "distinct (map rt_token rs)" "find (\<lambda>r. rt_token r = t) rs = Some r"
  shows "find (\<lambda>x. rt_token x = t) (filter (\<lambda>x. rt_id x \<noteq> rt_id r) rs) = None"
proof -
  from assms(2) have r: "r \<in> set rs" "rt_token r = t" by (auto dest: find_Some_mem)
  have "\<And>x. x \<in> set rs \<Longrightarrow> rt_token x = t \<Longrightarrow> x = r"
    using assms(1) r by (metis distinct_map inj_onD)
  then show ?thesis by (auto simp: find_None_iff)
qed

lemma fk_user_found:
  assumes "db_ok d" "r \<in> set (refreshTokens d)"
  shows "\<exists>u. user_findUnique_id (rt_userId r) d = Some u \<and> u_id u = rt_userId r"
proof -
  from assms have "rt_userId r \<in> set (map u_id (users d))"
    by (auto simp: db_ok_def list_all_iff)
  then have "find (\<lambda>u. u_id u = rt_userId r) (users d) \<noteq> None"
    by (auto simp: find_None_iff)
  then show ?thesis
    by (auto simp: user_findUnique_id_def dest: find_Some_mem)
qed

lemma refresh_invalid:
  "verifyRefreshToken cfg now tok = None \<Longrightarrow> refreshAccessToken cfg now tok d = (Inr None, d)"
  by (simp add: refreshAccessToken_def)

lemma refresh_unpersisted:
  assumes "tok \<notin> set (map rt_token (refreshTokens d))"
  shows "refreshAccessToken cfg now tok d = (Inr None, d)"
proof -
  from assms have "find (\<lambda>r. rt_token r = tok) (refreshTokens d) = None"
    by (auto simp: find_None_iff)
  then show ?thesis
    by (simp add: refreshAccessToken_def refreshToken_findUnique_def split: option.splits)
qed

lemma refresh_expired:
  assumes ok: "db_ok d"
    and v: "verifyRefreshToken cfg now tok \<noteq> None"
    and f: "find (\<lambda>r. rt_token r = tok) (refreshTokens d) = Some r"
    and e: "rt_expiresAt r < now"
  shows "refreshAccessToken cfg now tok d =
           (Inr None, d\<lparr>refreshTokens := filter (\<lambda>x. rt_id x \<noteq> rt_id r) (refreshTokens d)\<rparr>)"
proof -
  from f have mem: "r \<in> set (refreshTokens d)" by (auto dest: find_Some_mem)
  from fk_user_found[OF ok mem] obtain u where u: "user_findUnique_id (rt_userId r) d = Some u"
    by blast
  from mem have "rt_id r \<in> set (map rt_id (refreshTokens d))" by auto
  then show ?thesis
    using v f e u
    by (auto simp: refreshAccessToken_def refreshToken_findUnique_def refreshToken_delete_id_def)
qed

lemma refresh_valid:
  assumes v: "verifyRefreshToken cfg now tok \<noteq> None"
    and f: "find (\<lambda>r. rt_token r = tok) (refreshTokens d) = Some r"
    and e: "\<not> rt_expiresAt r < now"
    and u: "user_findUnique_id (rt_userId r) d = Some u"
  shows "refreshAccessToken cfg now tok d =
           (Inr (Some (generateAccessToken cfg now
              \<lparr>userId = u_id u, email = u_email u, role = u_role u\<rparr>)), d)"
  using assms
  by (auto simp: refreshAccessToken_def refreshToken_findUnique_def)

lemma refresh_second_call:
  assumes ok: "db_ok d"
    and f: "find (\<lambda>r. rt_token r = tok) (refreshTokens d) = Some r"
    and e: "rt_expiresAt r < now"
    and l: "now \<le> later"
  shows "fst (refreshAccessToken cfg now tok d) = Inr None \<and>
         fst (refreshAccessToken cfg later tok (snd (refreshAccessToken cfg now tok d))) = Inr None"
proof (cases "verifyRefreshToken cfg now tok = None")
  case True
  then have first: "refreshAccessToken cfg now tok d = (Inr None, d)" by (rule refresh_invalid)
  have "fst (refreshAccessToken cfg later tok d) = Inr None"
  proof (cases "verifyRefreshToken cfg later tok = None")
    case True
    then show ?thesis by (simp add: refresh_invalid)
  next
    case False
    from e l have "rt_expiresAt r < later" by simp
    from refresh_expired[OF ok False f this] show ?thesis by simp
  qed
  with first show ?thesis by simp
next
  case False
  let ?d' = "d\<lparr>refreshTokens := filter (\<lambda>x. rt_id x \<noteq> rt_id r) (refreshTokens d)\<rparr>"
  have first: "refreshAccessToken cfg now tok d = (Inr None, ?d')"
    by (rule refresh_expired[OF ok False f e])
  have "distinct (map rt_token (refreshTokens d))" using ok by (simp add: db_ok_def)
  from find_filter_token_None[OF this f]
  have "tok \<notin> set (map rt_token (refreshTokens ?d'))" by (auto simp: find_None_iff)
  then have "refreshAccessToken cfg later tok ?d' = (Inr None, ?d')" by (rule refresh_unpersisted)
  with first show ?thesis by simp
qed

text \<open>
  With a signed lifetime of seven days or less, as by default, a refresh token of the
  service no longer verifies once the seven days of its row have passed: the row is kept.
\<close>

lemma issued_token_row_kept:
  assumes "JWT_REFRESH_EXPIRES_IN cfg \<le> 604800" and "issued + 604800000 < now"
  shows "refreshAccessToken cfg now (generateRefreshToken cfg issued payload) d = (Inr None, d)"
proof -
  have "(issued + 604800 * 1000) div 1000 \<le> now div 1000"
    using assms(2) by (intro zdiv_mono1) simp_all
  then have "issued div 1000 + 604800 \<le> now div 1000" by simp
  with assms(1) have "verifyRefreshToken cfg now (generateRefreshToken cfg issued payload) = None"
    by (simp add: verifyRefreshToken_def generateRefreshToken_def jwt_sign_def jwt_verify_def)
  then show ?thesis by (rule refresh_invalid)
qed

text \<open>
  Claim C1, as amended. In a store that satisfies its constraints, \<open>refreshAccessToken\<close>
  returns null and throws nothing, leaving the store as it was, for a token that does not
  verify and for a token that has no row. For a token whose row has expired it returns
  null and throws nothing; it deletes that row, and nothing else, when the token verifies,
  and keeps it when the token does not; either way a call with the same token at the same
  or a later time returns null again. For a token that verifies and whose row has not
  expired it returns an access token signed for the id, address and role of the user row
  the token row points to, as the store has them now.
\<close>

theorem refreshAccessToken_results:
  assumes ok: "db_ok d"
  shows "(verifyRefreshToken cfg now tok = None \<longrightarrow>
            refreshAccessToken cfg now tok d = (Inr None, d)) \<and>
         (tok \<notin> set (map rt_token (refreshTokens d)) \<longrightarrow>
            refreshAccessToken cfg now tok d = (Inr None, d)) \<and>
         (find (\<lambda>r. rt_token r = tok) (refreshTokens d) = Some r \<and> rt_expiresAt r < now \<longrightarrow>
            fst (refreshAccessToken cfg now tok d) = Inr None \<and>
            (\<forall>later \<ge> now.
               fst (refreshAccessToken cfg later tok (snd (refreshAccessToken cfg now tok d)))
                 = Inr None)) \<and>
         (verifyRefreshToken cfg now tok \<noteq> None \<and>
          find (\<lambda>r. rt_token r = tok) (refreshTokens d) = Some r \<and> rt_expiresAt r < now \<longrightarrow>
            (\<exists>d'. refreshAccessToken cfg now tok d = (Inr None, d') \<and>
                  refreshTokens d' = filter (\<lambda>x. x \<noteq> r) (refreshTokens d) \<and>
                  users d' = users d \<and> passwordResetTokens d' = passwordResetTokens d \<and>
                  userSkills d' = userSkills d \<and>
                  (\<forall>later. refreshAccessToken cfg later tok d' = (Inr None, d')))) \<and>
         (verifyRefreshToken cfg now tok \<noteq> None \<and>
          find (\<lambda>r. rt_token r = tok) (refreshTokens d) = Some r \<and> \<not> rt_expiresAt r < now \<longrightarrow>
            (\<exists>u. user_findUnique_id (rt_userId r) d = Some u \<and>
                 refreshAccessToken cfg now tok d =
                   (Inr (Some (generateAccessToken cfg now
                      \<lparr>userId = u_id u, email = u_email u, role = u_role u\<rparr>)), d)))"
proof (intro conjI impI allI)
  assume "verifyRefreshToken cfg now tok = None"
  then show "refreshAccessToken cfg now tok d = (Inr None, d)" by (rule refresh_invalid)
next
  assume "tok \<notin> set (map rt_token (refreshTokens d))"
  then show "refreshAccessToken cfg now tok d = (Inr None, d)" by (rule refresh_unpersisted)
next
  assume a: "find (\<lambda>r. rt_token r = tok) (refreshTokens d) = Some r \<and> rt_expiresAt r < now"
  then show "fst (refreshAccessToken cfg now tok d) = Inr None"
    using refresh_second_call[OF ok, of tok r now now cfg] by simp
next
  fix later
  assume a: "find (\<lambda>r. rt_token r = tok) (refreshTokens d) = Some r \<and> rt_expiresAt r < now"
    and l: "now \<le> later"
  then show "fst (refreshAccessToken cfg later tok (snd (refreshAccessToken cfg now tok d)))
               = Inr None"
    using refresh_second_call[OF ok, of tok r now later cfg] by simp
next
  assume a: "verifyRefreshToken cfg now tok \<noteq> None \<and>
          find (\<lambda>r. rt_token r = tok) (refreshTokens d) = Some r \<and> rt_expiresAt r < now"
  let ?d' = "d\<lparr>refreshTokens := filter (\<lambda>x. rt_id x \<noteq> rt_id r) (refreshTokens d)\<rparr>"
  from a have mem: "r \<in> set (refreshTokens d)" by (auto dest: find_Some_mem)
  have dist: "distinct (map rt_id (refreshTokens d))" "distinct (map rt_token (refreshTokens d))"
    using ok by (auto simp: db_ok_def)
  have same: "filter (\<lambda>x. rt_id x \<noteq> rt_id r) (refreshTokens d)
                = filter (\<lambda>x. x \<noteq> r) (refreshTokens d)"
    using dist(1) mem by (intro filter_cong refl) (metis distinct_map inj_onD)
  have gone: "find (\<lambda>x. rt_token x = tok) (refreshTokens ?d') = None"
    using find_filter_token_None[OF dist(2)] a by simp
  then have "tok \<notin> set (map rt_token (refreshTokens ?d'))"
    by (auto simp: find_None_iff)
  then have again: "\<forall>later. refreshAccessToken cfg later tok ?d' = (Inr None, ?d')"
    by (blast intro: refresh_unpersisted)
  have "refreshAccessToken cfg now tok d = (Inr None, ?d')"
    using refresh_expired[OF ok] a by blast
  with again same
  show "\<exists>d'. refreshAccessToken cfg now tok d = (Inr None, d') \<and>
                  refreshTokens d' = filter (\<lambda>x. x \<noteq> r) (refreshTokens d) \<and>
                  users d' = users d \<and> passwordResetTokens d' = passwordResetTokens d \<and>
                  userSkills d' = userSkills d \<and>
                  (\<forall>later. refreshAccessToken cfg later tok d' = (Inr None, d'))"
    by (intro exI[of _ ?d']) simp
next
  assume a: "verifyRefreshToken cfg now tok \<noteq> None \<and>
          find (\<lambda>r. rt_token r = tok) (refreshTokens d) = Some r \<and> \<not> rt_expiresAt r < now"
  then have mem: "r \<in> set (refreshTokens d)" by (auto dest: find_Some_mem)
  from fk_user_found[OF ok mem] obtain u where u: "user_findUnique_id (rt_userId r) d = Some u"
    by blast
  with a refresh_valid[of cfg now tok d r u]
  show "\<exists>u. user_findUnique_id (rt_userId r) d = Some u \<and>
                 refreshAccessToken cfg now tok d =
                   (Inr (Some (generateAccessToken cfg now
                      \<lparr>userId = u_id u, email = u_email u, role = u_role u\<rparr>)), d)"
    by blast
qed

text \<open>
  Claim C1 as stated fails: with the default lifetimes, a token of the service whose row
  has expired is refused without its row being deleted.
\<close>

theorem refreshAccessToken_counterexample:
  "refreshTokens db_reset = [session_row] \<and> rt_expiresAt session_row < 700000000 \<and>
   refreshAccessToken cfg0 700000000 (rt_token session_row) db_reset = (Inr None, db_reset)"
  by (simp add: refreshAccessToken_def db_reset_def session_row_def ex_defs)

theorem refreshAccessToken_results_witness:
  "db_ok db_promoted \<and>
   refreshAccessToken cfg_long 1000 (NotJWT ''garbage'') db_promoted = (Inr None, db_promoted) \<and>
   refreshAccessToken cfg_long 1000 (generateRefreshToken cfg_long 5000 acme_payload) db_promoted
     = (Inr None, db_promoted) \<and>
   refreshAccessToken cfg_long 700000000 (rt_token old_row) db_promoted
     = (Inr None, db_promoted\<lparr>refreshTokens := []\<rparr>) \<and>
   refreshAccessToken cfg_long 700000000 (rt_token old_row) (db_promoted\<lparr>refreshTokens := []\<rparr>)
     = (Inr None, db_promoted\<lparr>refreshTokens := []\<rparr>) \<and>
   refreshAccessToken cfg_long 1000 (rt_token old_row) db_promoted
     = (Inr (Some (generateAccessToken cfg_long 1000
          \<lparr>userId = ''u1'', email = ''a@b.com'', role = ''ADMIN''\<rparr>)), db_promoted) \<and>
   db_ok db_reset \<and>
   fst (refreshAccessToken cfg0 700000000 (rt_token session_row) db_reset) = Inr None \<and>
   fst (refreshAccessToken cfg0 800000000 (rt_token session_row)
          (snd (refreshAccessToken cfg0 700000000 (rt_token session_row) db_reset))) = Inr None"
proof -
  have ok: "db_ok db_promoted" by (simp add: ex_defs)
  have ok': "db_ok db_reset" by (simp add: db_reset_def session_row_def reset_row1_def ex_defs)
  have a: "verifyRefreshToken cfg_long 1000 (NotJWT ''garbage'') = None"
    by (simp add: ex_defs)
  have b: "generateRefreshToken cfg_long 5000 acme_payload
             \<notin> set (map rt_token (refreshTokens db_promoted))"
    by (simp add: ex_defs)
  have c: "verifyRefreshToken cfg_long 700000000 (rt_token old_row) \<noteq> None \<and>
           find (\<lambda>r. rt_token r = rt_token old_row) (refreshTokens db_promoted) = Some old_row \<and>
           rt_expiresAt old_row < 700000000"
    by (simp add: ex_defs)
  have e: "verifyRefreshToken cfg_long 1000 (rt_token old_row) \<noteq> None \<and>
           find (\<lambda>r. rt_token r = rt_token old_row) (refreshTokens db_promoted) = Some old_row \<and>
           \<not> rt_expiresAt old_row < 1000"
    by (simp add: ex_defs)
  have g: "find (\<lambda>r. rt_token r = rt_token session_row) (refreshTokens db_reset)
             = Some session_row \<and> rt_expiresAt session_row < 700000000"
    by (simp add: db_reset_def session_row_def)
  note t1 = refreshAccessToken_results[OF ok, of cfg_long 1000 "NotJWT ''garbage''"]
  note t2 = refreshAccessToken_results[OF ok, of cfg_long 1000
              "generateRefreshToken cfg_long 5000 acme_payload"]
  note t3 = refreshAccessToken_results[OF ok, of cfg_long 700000000 "rt_token old_row" old_row]
  note t4 = refreshAccessToken_results[OF ok, of cfg_long 1000 "rt_token old_row" old_row]
  note t5 = refreshAccessToken_results[OF ok', of cfg0 700000000 "rt_token session_row"
              session_row]
  from t3 c obtain d1 where d1:
      "refreshAccessToken cfg_long 700000000 (rt_token old_row) db_promoted = (Inr None, d1)"
      "refreshTokens d1 = filter (\<lambda>x. x \<noteq> old_row) (refreshTokens db_promoted)"
      "users d1 = users db_promoted" "passwordResetTokens d1 = passwordResetTokens db_promoted"
      "userSkills d1 = userSkills db_promoted"
      "\<forall>later. refreshAccessToken cfg_long later (rt_token old_row) d1 = (Inr None, d1)"
    by blast
  have d1eq: "d1 = db_promoted\<lparr>refreshTokens := []\<rparr>"
    using d1(2-5) by (simp add: db_promoted_def)
  from t4 e obtain u where u: "user_findUnique_id (rt_userId old_row) db_promoted = Some u"
     "refreshAccessToken cfg_long 1000 (rt_token old_row) db_promoted =
                   (Inr (Some (generateAccessToken cfg_long 1000
                      \<lparr>userId = u_id u, email = u_email u, role = u_role u\<rparr>)), db_promoted)"
    by blast
  from u(1) have "u = acme\<lparr>u_role := ''ADMIN''\<rparr>"
    by (simp add: ex_defs)
  then have uf: "u_id u = ''u1''" "u_email u = ''a@b.com''" "u_role u = ''ADMIN''"
    by (simp_all add: ex_defs)
  from t5 g have s: "fst (refreshAccessToken cfg0 700000000 (rt_token session_row) db_reset)
      = Inr None"
    "fst (refreshAccessToken cfg0 800000000 (rt_token session_row)
          (snd (refreshAccessToken cfg0 700000000 (rt_token session_row) db_reset))) = Inr None"
    by simp_all
  show ?thesis
    using ok ok' t1 a t2 b d1(1) d1(6) d1eq u(2) uf s by simp
qed

subsection \<open>Issuing and revoking refresh tokens\<close>

lemmas run_defs = generateTokenPair_def refreshToken_create_def Let_def

lemma generateTokenPair_ok:
  assumes "newId \<notin> set (map rt_id (refreshTokens d))"
    and "generateRefreshToken cfg now \<lparr>userId = u_id usr, email = u_email usr, role = u_role usr\<rparr>
           \<notin> set (map rt_token (refreshTokens d))"
    and "u_id usr \<in> set (map u_id (users d))"
  shows "generateTokenPair cfg now newId usr d =
    (Inr \<lparr>accessToken = generateAccessToken cfg now \<lparr>userId = u_id usr, email = u_email usr, role = u_role usr\<rparr>,
          refreshToken = generateRefreshToken cfg now \<lparr>userId = u_id usr, email = u_email usr, role = u_role usr\<rparr>\<rparr>,
     d\<lparr>refreshTokens := refreshTokens d @
        [\<lparr>rt_id = newId, rt_token = generateRefreshToken cfg now \<lparr>userId = u_id usr, email = u_email usr, role = u_role usr\<rparr>,
          rt_userId = u_id usr, rt_expiresAt = now + 604800000, rt_createdAt = now\<rparr>]\<rparr>)"
  using assms by (simp add: run_defs)

lemma generateRefreshToken_eq_iff:
  "generateRefreshToken cfg now p = generateRefreshToken cfg now' p' \<longleftrightarrow>
     now div 1000 = now' div 1000 \<and> p = p'"
  by (auto simp: generateRefreshToken_def jwt_sign_def)

text \<open>
  Two issuances for one user in the same clock second: whenever the first succeeds, the
  second fails on the unique index, in every store.
\<close>

lemma generateTokenPair_twice_same_second:
  assumes first: "generateTokenPair cfg now newId usr d = (Inr pair, d1)"
    and same: "now' div 1000 = now div 1000"
    and fresh: "newId' \<notin> set (map rt_id (refreshTokens d1))"
  shows "generateTokenPair cfg now' newId' usr d1 = (Inl (PrismaKnown (P2002 [''token''])), d1)"
proof -
  let ?p = "\<lparr>userId = u_id usr, email = u_email usr, role = u_role usr\<rparr>"
  from first have "generateRefreshToken cfg now ?p \<in> set (map rt_token (refreshTokens d1))"
    by (auto simp: generateTokenPair_def refreshToken_create_def Let_def split: if_splits)
  moreover have "generateRefreshToken cfg now' ?p = generateRefreshToken cfg now ?p"
    using same by (simp add: generateRefreshToken_eq_iff)
  ultimately show ?thesis
    using fresh by (simp add: generateTokenPair_def refreshToken_create_def Let_def)
qed

text \<open>
  Claim C5. Two token pairs issued for the same user within one clock second: the first
  is stored, the second call signs the same refresh token again (same payload, same
  \<open>iat\<close>, same \<open>exp\<close>), so the insertion violates the unique index on \<open>token\<close> and
  \<open>generateTokenPair\<close> throws. The store holds one row, not two.
\<close>

theorem generateTokenPair_same_second:
  "\<not> isl (fst (generateTokenPair cfg0 1000 ''r1'' acme db_acme)) \<and>
   generateTokenPair cfg0 1500 ''r2'' acme (snd (generateTokenPair cfg0 1000 ''r1'' acme db_acme))
     = (Inl (PrismaKnown (P2002 [''token''])), snd (generateTokenPair cfg0 1000 ''r1'' acme db_acme)) \<and>
   length (refreshTokens (snd (generateTokenPair cfg0 1000 ''r1'' acme db_acme))) = 1"
  by (simp add: run_defs ex_defs db_acme_def)

text \<open>
  What the claim says about revocation holds. Revoking one token deletes the rows with
  that token and no other, and leaves the result of \<open>refreshAccessToken\<close> for every other
  token as it was; after a successful \<open>revokeAllUserTokens\<close> every token whose rows
  belonged to the user is refused.
\<close>

lemma revokeRefreshToken_other:
  assumes "t \<noteq> t'"
  shows "find (\<lambda>r. rt_token r = t') (refreshTokens (snd (revokeRefreshToken rejected t d)))
           = find (\<lambda>r. rt_token r = t') (refreshTokens d)"
    and "users (snd (revokeRefreshToken rejected t d)) = users d"
proof -
  have keep: "find (\<lambda>r. rt_token r = t') (filter (\<lambda>r. rt_token r \<noteq> t) rs)
                = find (\<lambda>r. rt_token r = t') rs" for rs
    using assms by (induction rs) auto
  show "find (\<lambda>r. rt_token r = t') (refreshTokens (snd (revokeRefreshToken rejected t d)))
           = find (\<lambda>r. rt_token r = t') (refreshTokens d)"
    by (simp add: revokeRefreshToken_def store_call_def refreshToken_delete_token_def keep)
  show "users (snd (revokeRefreshToken rejected t d)) = users d"
    by (simp add: revokeRefreshToken_def store_call_def refreshToken_delete_token_def)
qed

lemma refreshAccessToken_fst_cong:
  assumes "find (\<lambda>r. rt_token r = t) (refreshTokens d') = find (\<lambda>r. rt_token r = t) (refreshTokens d)"
    and "users d' = users d"
  shows "fst (refreshAccessToken cfg now t d') = fst (refreshAccessToken cfg now t d)"
proof (cases "find (\<lambda>r. rt_token r = t) (refreshTokens d)")
  case None
  with assms show ?thesis
    by (simp add: refreshAccessToken_def refreshToken_findUnique_def split: option.splits)
next
  case (Some r)
  with assms(1) have "r \<in> set (refreshTokens d)" "r \<in> set (refreshTokens d')"
    by (auto dest: find_Some_mem)
  then have "rt_id r \<in> set (map rt_id (refreshTokens d))"
    "rt_id r \<in> set (map rt_id (refreshTokens d'))" by auto
  with Some assms show ?thesis
    by (simp add: refreshAccessToken_def refreshToken_findUnique_def user_findUnique_id_def
      refreshToken_delete_id_def split: option.splits)
qed

lemma revoke_one_keeps_other:
  "t \<noteq> t' \<Longrightarrow> fst (refreshAccessToken cfg now t' (snd (revokeRefreshToken rejected t d)))
     = fst (refreshAccessToken cfg now t' d)"
  by (rule refreshAccessToken_fst_cong) (simp_all add: revokeRefreshToken_other)

lemma filter_absent_token:
  "t \<notin> set (map rt_token rs) \<Longrightarrow> filter (\<lambda>r. rt_token r \<noteq> t) rs = rs"
  by (induction rs) auto

lemma revokeRefreshToken_removes_only:
  "refreshTokens (snd (revokeRefreshToken False t d))
     = filter (\<lambda>r. rt_token r \<noteq> t) (refreshTokens d)"
  by (simp add: revokeRefreshToken_def store_call_def refreshToken_delete_token_def
      filter_absent_token)

lemma revokeAll_then_refresh:
  assumes "fst (revokeAllUserTokens rejected i d)"
    and "\<forall>r \<in> set (refreshTokens d). rt_token r = t \<longrightarrow> rt_userId r = i"
  shows "refreshAccessToken cfg now t (snd (revokeAllUserTokens rejected i d))
          = (Inr None, snd (revokeAllUserTokens rejected i d))"
proof -
  from assms(1) have "\<not> rejected"
    by (auto simp: revokeAllUserTokens_def store_call_def)
  then have "t \<notin> set (map rt_token (refreshTokens (snd (revokeAllUserTokens rejected i d))))"
    using assms(2)
    by (auto simp: revokeAllUserTokens_def store_call_def refreshToken_deleteMany_userId_def)
  then show ?thesis by (rule refresh_unpersisted)
qed

text \<open>
  Claim C7, as amended. Both functions delete the matching rows and return true when the
  store call succeeds, and return false, changing nothing, when it fails. For
  \<open>revokeRefreshToken\<close> the call fails when the store rejects it and when no row has the
  token; for \<open>revokeAllUserTokens\<close> it fails only when the store rejects it, and a user
  without rows is no failure.
\<close>

theorem revoke_results:
  "revokeRefreshToken rejected tok d =
     (if rejected \<or> tok \<notin> set (map rt_token (refreshTokens d)) then (False, d)
      else (True, d\<lparr>refreshTokens := filter (\<lambda>r. rt_token r \<noteq> tok) (refreshTokens d)\<rparr>)) \<and>
   revokeAllUserTokens rejected i d =
     (if rejected then (False, d)
      else (True, d\<lparr>refreshTokens := filter (\<lambda>r. rt_userId r \<noteq> i) (refreshTokens d)\<rparr>))"
  by (simp add: revokeRefreshToken_def refreshToken_delete_token_def revokeAllUserTokens_def
      refreshToken_deleteMany_userId_def store_call_def)

text \<open>
  Claim C7 as stated fails: with no row to delete and a store that accepts the call,
  \<open>revokeAllUserTokens\<close> returns true.
\<close>

theorem revokeAllUserTokens_counterexample:
  "refreshTokens db_acme = [] \<and> revokeAllUserTokens False ''u1'' db_acme = (True, db_acme)"
  by (simp add: revokeAllUserTokens_def refreshToken_deleteMany_userId_def store_call_def
      db_acme_def)

theorem revoke_results_witness:
  "revokeRefreshToken False (rt_token old_row) db_promoted
     = (True, db_promoted\<lparr>refreshTokens := []\<rparr>) \<and>
   revokeRefreshToken False (NotJWT ''x'') db_promoted = (False, db_promoted) \<and>
   revokeRefreshToken True (rt_token old_row) db_promoted = (False, db_promoted) \<and>
   revokeAllUserTokens False ''u1'' db_promoted = (True, db_promoted\<lparr>refreshTokens := []\<rparr>) \<and>
   revokeAllUserTokens False ''u2'' db_promoted = (True, db_promoted) \<and>
   revokeAllUserTokens True ''u1'' db_promoted = (False, db_promoted)"
  using revoke_results[of False "rt_token old_row" db_promoted "''u1''"]
        revoke_results[of False "NotJWT ''x''" db_promoted "''u2''"]
        revoke_results[of True "rt_token old_row" db_promoted "''u1''"]
  by (simp add: ex_defs)

subsection \<open>Passwords\<close>

lemma concat_replicate_72: "concat (replicate 72 xs) = xs @ concat (replicate 71 xs)"
proof -
  have "(72::nat) = Suc 71" by simp
  then show ?thesis by (simp only: replicate_Suc concat.simps)
qed

lemma bcrypt_key_long: "72 \<le> length p \<Longrightarrow> bcrypt_key p = take 72 p"
  by (simp add: bcrypt_key_def concat_replicate_72)

lemma bcrypt_key_short:
  "length p < 72 \<Longrightarrow>
     bcrypt_key p = p @ CHR 0x00 # take (71 - length p) (concat (replicate 71 (p @ [CHR 0x00])))"
  by (simp add: bcrypt_key_def concat_replicate_72 take_Cons')

lemma takeWhile_bcrypt_key:
  assumes "CHR 0x00 \<notin> set p"
  shows "takeWhile (\<lambda>c. c \<noteq> CHR 0x00) (bcrypt_key p) = take 72 p"
proof (cases "72 \<le> length p")
  case True
  have "\<forall>c \<in> set (take 72 p). c \<noteq> CHR 0x00"
    using assms by (metis in_set_takeD)
  then show ?thesis using True by (simp add: bcrypt_key_long)
next
  case False
  then have "length p < 72" by simp
  have "takeWhile (\<lambda>c. c \<noteq> CHR 0x00) (p @ CHR 0x00 # r) = p" for r
    using assms by (subst takeWhile_append2) auto
  with bcrypt_key_short[OF \<open>length p < 72\<close>] show ?thesis
    using False by simp
qed

lemma bcrypt_key_cong:
  assumes "CHR 0x00 \<notin> set p" "CHR 0x00 \<notin> set q" "take 72 p = take 72 q"
  shows "bcrypt_key p = bcrypt_key q"
proof (cases "72 \<le> length p")
  case True
  then have "length (take 72 q) = 72" using assms(3) by (metis length_take min.absorb2)
  then have "72 \<le> length q" by simp
  with True assms(3) show ?thesis by (simp add: bcrypt_key_long)
next
  case False
  then have "length (take 72 q) < 72" using assms(3) by (metis length_take min.strict_coboundedI2 not_le min.commute)
  then have "length q < 72" by simp
  with False assms(3) show ?thesis by simp
qed

text \<open>
  Claim C9, as amended. Every password compares equal to its own digest. Another password
  compares equal to that digest exactly when the two agree on their first 72 bytes,
  provided neither holds a NUL byte.
\<close>

theorem comparePassword_iff:
  "comparePassword p (hashPassword cfg salt p) \<and>
   (CHR 0x00 \<notin> set p \<and> CHR 0x00 \<notin> set p' \<longrightarrow>
      (comparePassword p' (hashPassword cfg salt p) \<longleftrightarrow> take 72 p' = take 72 p))"
proof -
  have "bcrypt_key p' = bcrypt_key p \<longleftrightarrow> take 72 p' = take 72 p"
    if "CHR 0x00 \<notin> set p" "CHR 0x00 \<notin> set p'"
    using that takeWhile_bcrypt_key[of p] takeWhile_bcrypt_key[of p'] bcrypt_key_cong[of p' p]
    by metis
  then show ?thesis
    by (simp add: comparePassword_def hashPassword_def bcrypt_compare_def bcrypt_hash_def)
qed

text \<open>
  Claim C9 as stated fails, in two ways: two different passwords that share their first 72
  bytes compare equal, and so do a password and the password that repeats it after a NUL
  byte, since the key is read cyclically from the password and its terminating NUL.
\<close>

theorem comparePassword_counterexample:
  "long_c \<noteq> long_b \<and> comparePassword long_c (hashPassword cfg0 ''salt'' long_b) \<and>
   [CHR ''a'', CHR 0x00, CHR ''a''] \<noteq> ''a'' \<and>
   comparePassword [CHR ''a'', CHR 0x00, CHR ''a''] (hashPassword cfg0 ''salt'' ''a'')"
proof -
  have "bcrypt_key [CHR ''a'', CHR 0x00, CHR ''a''] = bcrypt_key ''a''"
    by code_simp
  then show ?thesis
    by (simp add: long_b_def long_c_def comparePassword_def hashPassword_def
        bcrypt_compare_def bcrypt_hash_def bcrypt_key_long)
qed

theorem comparePassword_iff_witness:
  "CHR 0x00 \<notin> set ''Abcdef12'' \<and> CHR 0x00 \<notin> set ''Abcdef13'' \<and>
   comparePassword ''Abcdef12'' (hashPassword cfg0 ''salt'' ''Abcdef12'') \<and>
   \<not> comparePassword ''Abcdef13'' (hashPassword cfg0 ''salt'' ''Abcdef12'') \<and>
   comparePassword [CHR ''a'', CHR 0x00] (hashPassword cfg0 ''salt'' [CHR ''a'', CHR 0x00])"
  using comparePassword_iff[of "''Abcdef12''" cfg0 "''salt''" "''Abcdef13''"]
        comparePassword_iff[of "[CHR ''a'', CHR 0x00]" cfg0 "''salt''"]
  by simp

section \<open>Properties of the endpoints\<close>

lemma errorHandler_AppError:
  "code \<noteq> 0 \<Longrightarrow> code \<noteq> 500 \<Longrightarrow> m \<noteq> [] \<Longrightarrow>
   errorHandler cfg (AppError m code []) =
     \<lparr>status = code, body = [(''success'', JBool False), (''message'', JStr m)]\<rparr>"
  by (simp add: errorHandler_def res_json_def)

lemmas handler_defs = register_handler_def register_transaction_def user_create_def
  login_handler_def user_update_def asyncHandler_def errorHandler_def res_json_def
  user_findUnique_email_def comparePassword_def bcrypt_compare_def bcrypt_hash_def
  generateTokenPair_def refreshToken_create_def Let_def

text \<open>
  Claim C3. A login request that passed validation and whose address matches no user, or
  whose password does not match the stored digest, gets status 401 and the body
  \<open>{success: false, message: 'Invalid email or password'}\<close>, the same in both cases and
  in every build; the store is unchanged.
\<close>

theorem login_rejection_generic:
  assumes "user_findUnique_email mail d = None \<or>
           (\<exists>u. user_findUnique_email mail d = Some u \<and> \<not> comparePassword password (u_passwordHash u))"
  shows "asyncHandler cfg (login_handler cfg now newTokenId [] mail password d) =
           (\<lparr>status = 401,
             body = [(''success'', JBool False), (''message'', JStr ''Invalid email or password'')]\<rparr>, d)"
  using assms
  by (auto simp: login_handler_def asyncHandler_def errorHandler_AppError)

theorem login_rejection_generic_witness:
  "user_findUnique_email ''nobody@b.com'' db_acme = None \<and>
   user_findUnique_email ''a@b.com'' db_acme = Some acme \<and>
   \<not> comparePassword ''Wrong123'' (u_passwordHash acme) \<and>
   asyncHandler cfg0 (login_handler cfg0 5000 ''r1'' [] ''nobody@b.com'' ''Abcdef12'' db_acme)
     = asyncHandler cfg0 (login_handler cfg0 5000 ''r1'' [] ''a@b.com'' ''Wrong123'' db_acme) \<and>
   status (fst (asyncHandler cfg0 (login_handler cfg0 5000 ''r1'' [] ''a@b.com'' ''Wrong123'' db_acme))) = 401"
proof -
  have a: "user_findUnique_email ''nobody@b.com'' db_acme = None"
    by (simp add: user_findUnique_email_def db_acme_def ex_defs)
  have b: "user_findUnique_email ''a@b.com'' db_acme = Some acme"
    by (simp add: user_findUnique_email_def db_acme_def ex_defs)
  have c: "\<not> comparePassword ''Wrong123'' (u_passwordHash acme)"
    by (simp add: ex_defs comparePassword_def bcrypt_compare_def bcrypt_hash_def bcrypt_key_short)
  show ?thesis
    using a b c
      login_rejection_generic[of "''nobody@b.com''" db_acme "''Abcdef12''" cfg0 5000 "''r1''"]
      login_rejection_generic[of "''a@b.com''" db_acme "''Wrong123''" cfg0 5000 "''r1''"]
    by simp
qed

subsection \<open>Register, then login\<close>

lemma map_of_select_omit:
  "map_of (select_keys registered_fields (user_object u)) ''passwordHash'' = None"
  "map_of (omit_key ''passwordHash'' (user_object u)) ''passwordHash'' = None"
  by (simp_all add: select_keys_def omit_key_def user_object_def registered_fields_def)

lemma register_response:
  assumes "register_handler cfg now salt uid sids tid errors b d = (Inr resp, d1)"
  shows "status resp = 201 \<and>
         response_user resp = JObj (select_keys registered_fields
            (user_object (userData b (hashPassword cfg salt (rb_password b)) uid now))) \<and>
         property ''passwordHash'' (response_user resp) = JUndefined"
  using assms
  by (auto simp: register_handler_def Let_def res_json_def response_user_def property_def
      map_of_select_omit split: if_splits option.splits sum.splits prod.splits)

lemma login_response:
  assumes "login_handler cfg now tid errors mail password d = (Inr resp, d1)"
  shows "status resp = 200 \<and>
         (\<exists>u. user_findUnique_email mail d = Some u \<and>
              response_user resp = JObj (omit_key ''passwordHash'' (user_object u))) \<and>
         property ''passwordHash'' (response_user resp) = JUndefined \<and>
         (\<exists>a r. property ''accessToken'' (property ''data'' (JObj (body resp))) = JToken a \<and>
                property ''refreshToken'' (property ''data'' (JObj (body resp))) = JToken r)"
  using assms
  by (auto simp: login_handler_def Let_def res_json_def response_user_def property_def
      map_of_select_omit split: if_splits option.splits sum.splits prod.splits)

lemma find_append_new:
  "find P xs = None \<Longrightarrow> P x \<Longrightarrow> find P (xs @ [x]) = Some x"
  by (induction xs) (auto split: if_splits)

lemma register_store:
  assumes "register_handler cfg now salt uid sids tid errors b d = (Inr resp, d1)"
  shows "user_findUnique_email (rb_email b) d = None \<and>
         users d1 = users d @ [userData b (hashPassword cfg salt (rb_password b)) uid now] \<and>
         refreshTokens d1 = refreshTokens d @
           [\<lparr>rt_id = tid,
             rt_token = generateRefreshToken cfg now \<lparr>userId = uid, email = rb_email b, role = rb_role b\<rparr>,
             rt_userId = uid, rt_expiresAt = now + 604800000, rt_createdAt = now\<rparr>] \<and>
         passwordResetTokens d1 = passwordResetTokens d"
  using assms
  by (auto simp: register_handler_def Let_def register_transaction_def user_create_def
      userSkill_createMany_def generateTokenPair_def refreshToken_create_def userData_def
      split: if_splits option.splits sum.splits prod.splits)

lemma login_ok:
  assumes u: "user_findUnique_email mail d = Some u"
    and pw: "comparePassword password (u_passwordHash u)"
    and fresh: "tid \<notin> set (map rt_id (refreshTokens d))"
    and tok: "generateRefreshToken cfg now \<lparr>userId = u_id u, email = u_email u, role = u_role u\<rparr>
                \<notin> set (map rt_token (refreshTokens d))"
  shows "\<exists>resp d1. login_handler cfg now tid [] mail password d = (Inr resp, d1)"
proof -
  from u have mem: "u \<in> set (users d)" by (auto simp: user_findUnique_email_def dest: find_Some_mem)
  then have "find (\<lambda>x. u_id x = u_id u) (users d) \<noteq> None" by (auto simp: find_None_iff)
  then obtain v where v: "user_findUnique_id (u_id u) d = Some v"
    by (auto simp: user_findUnique_id_def)
  from mem have "u_id u \<in> (\<lambda>x. u_id (if u_id x = u_id u then x\<lparr>u_lastSeen := now, u_isOnline := True, u_updatedAt := now\<rparr> else x)) ` set (users d)"
    by (rule rev_image_eqI) simp
  with u pw fresh tok v show ?thesis
    by (simp add: login_handler_def user_update_def generateTokenPair_def refreshToken_create_def
        Let_def image_image)
qed

text \<open>
  A login with the registered address and password succeeds when its clock second is not
  the one of the registration (and the new token is not among those stored before).
\<close>

lemma login_after_register:
  assumes reg: "register_handler cfg now salt uid sids tid [] b d = (Inr resp, d1)"
    and later: "later div 1000 \<noteq> now div 1000"
    and fresh: "tid2 \<notin> set (map rt_id (refreshTokens d1))"
    and tok: "generateRefreshToken cfg later \<lparr>userId = uid, email = rb_email b, role = rb_role b\<rparr>
                \<notin> set (map rt_token (refreshTokens d))"
  shows "\<exists>resp2 d2. login_handler cfg later tid2 [] (rb_email b) (rb_password b) d1 = (Inr resp2, d2) \<and>
           status resp2 = 200 \<and> property ''passwordHash'' (response_user resp2) = JUndefined"
proof -
  let ?u = "userData b (hashPassword cfg salt (rb_password b)) uid now"
  note st = register_store[OF reg]
  have f: "user_findUnique_email (rb_email b) d1 = Some ?u"
    using st by (simp add: user_findUnique_email_def find_append_new userData_def)
  have pw: "comparePassword (rb_password b) (u_passwordHash ?u)"
    by (simp add: userData_def comparePassword_def hashPassword_def bcrypt_compare_def bcrypt_hash_def)
  have t: "generateRefreshToken cfg later \<lparr>userId = u_id ?u, email = u_email ?u, role = u_role ?u\<rparr>
                \<notin> set (map rt_token (refreshTokens d1))"
    using st tok later by (simp add: userData_def generateRefreshToken_eq_iff)
  from login_ok[OF f pw fresh t] obtain resp2 d2 where
    l: "login_handler cfg later tid2 [] (rb_email b) (rb_password b) d1 = (Inr resp2, d2)" by blast
  with login_response[OF l] show ?thesis by blast
qed

lemma registered_eval:
  "registered =
     (Inr \<lparr>status = 201, body =
        [(''success'', JBool True), (''message'', JStr ''User registered successfully''),
         (''data'', JObj
            [(''user'', JObj
               [(''id'', JStr ''u1''), (''email'', JStr ''a@b.com''), (''firstName'', JStr ''A''),
                (''lastName'', JStr ''B''), (''avatar'', JNull), (''bio'', JNull),
                (''hourlyRate'', JNull), (''role'', JStr ''CLIENT''),
                (''isEmailVerified'', JBool False), (''companyName'', JStr ''Acme''),
                (''companySize'', JNull), (''averageRating'', JNum 0),
                (''totalReviews'', JNum 0), (''createdAt'', JDate 1000)]),
             (''accessToken'', JToken (generateAccessToken cfg0 1000 acme_payload)),
             (''refreshToken'', JToken (generateRefreshToken cfg0 1000 acme_payload))])]\<rparr>,
      \<lparr>users = [acme\<lparr>u_lastSeen := 1000, u_createdAt := 1000, u_updatedAt := 1000\<rparr>],
       userSkills = [],
       refreshTokens = [\<lparr>rt_id = ''r1'', rt_token = generateRefreshToken cfg0 1000 acme_payload,
          rt_userId = ''u1'', rt_expiresAt = 604801000, rt_createdAt = 1000\<rparr>],
       passwordResetTokens = []\<rparr>)"
  by (simp add: registered_def db_empty_def handler_defs ex_defs user_object_def select_keys_def
      registered_fields_def nullable_def)

text \<open>
  Claim C4. The registration of the scenario answers 201 with a user object that has no
  \<open>passwordHash\<close> property. A login with the same address and password 500 milliseconds
  later does not succeed: it signs the refresh token of the registration again, the
  insertion violates the unique index, and the answer is 409 "token already exists", after
  the user row has been marked online.
\<close>

theorem login_right_after_register:
  "status (fst (asyncHandler cfg0 registered)) = 201 \<and>
   property ''passwordHash'' (response_user (fst (asyncHandler cfg0 registered))) = JUndefined \<and>
   asyncHandler cfg0 (login_handler cfg0 1500 ''r2'' [] ''a@b.com'' ''Abcdef12'' (snd registered)) =
     (\<lparr>status = 409, body = [(''success'', JBool False), (''message'', JStr ''token already exists'')]\<rparr>,
      (snd registered)\<lparr>users := [acme\<lparr>u_lastSeen := 1500, u_isOnline := True, u_createdAt := 1000, u_updatedAt := 1500\<rparr>]\<rparr>)"
  unfolding registered_eval
  by (simp add: handler_defs ex_defs response_user_def property_def)

text \<open>
  Skills are trimmed before they are stored, so two skills that differ in white space at
  the ends violate the unique index on \<open>(userId, skill)\<close>, and the transaction leaves
  nothing behind.
\<close>

lemma trim_examples:
  "trim ''a'' = ''a''"
  "trim '' a b '' = ''a b''"
  "trim [CHR ''a'', CHR 0xC2, CHR 0xA0] = ''a''"
  "trim [CHR 0xEF, CHR 0xBB, CHR 0xBF, CHR 0x09, CHR ''a'', CHR 0xE2, CHR 0x80, CHR 0xA8] = ''a''"
  by code_simp+

lemma register_duplicate_skills:
  "register_handler cfg0 1000 ''salt'' ''u2'' [''s1'', ''s2''] ''r1'' [] dev_body db_empty =
     (Inl (PrismaKnown (P2002 [''userId'', ''skill''])), db_empty)"
  by (simp add: register_handler_def register_transaction_def user_create_def
      userSkill_createMany_def user_findUnique_email_def truthy_num_def truthy_str_def
      dev_body_def db_empty_def userData_def Let_def trim_examples)

subsection \<open>Forgot password\<close>

text \<open>
  Claim C8, as amended. For a request that passed validation: 404 and an unchanged store
  when no user has the address; otherwise, the generated key and token being new, a row
  with the token, the user and an expiry one hour ahead is stored and the answer is 200,
  with the token in the body exactly when \<open>NODE_ENV\<close> is \<open>development\<close>.
\<close>

theorem forgot_password_results:
  "(user_findUnique_email mail d = None \<longrightarrow>
      asyncHandler cfg (forgot_password_handler cfg now newId uuid [] mail d) =
        (\<lparr>status = 404, body = [(''success'', JBool False), (''message'', JStr ''User not found'')]\<rparr>, d)) \<and>
   (user_findUnique_email mail d = Some u \<and> newId \<notin> set (map prt_id (passwordResetTokens d)) \<and>
    uuid \<notin> set (map prt_token (passwordResetTokens d)) \<longrightarrow>
      asyncHandler cfg (forgot_password_handler cfg now newId uuid [] mail d) =
        (\<lparr>status = 200,
          body = [(''success'', JBool True), (''message'', JStr ''Password reset email sent'')]
                 @ (if NODE_ENV cfg = Some ''development'' then [(''resetToken'', JStr uuid)] else [])\<rparr>,
         d\<lparr>passwordResetTokens := passwordResetTokens d @
             [\<lparr>prt_id = newId, prt_token = uuid, prt_userId = u_id u,
               prt_expiresAt = now + 3600000, prt_createdAt = now\<rparr>]\<rparr>))"
proof (intro conjI impI)
  assume "user_findUnique_email mail d = None"
  then show "asyncHandler cfg (forgot_password_handler cfg now newId uuid [] mail d) =
        (\<lparr>status = 404, body = [(''success'', JBool False), (''message'', JStr ''User not found'')]\<rparr>, d)"
    by (simp add: forgot_password_handler_def asyncHandler_def errorHandler_AppError)
next
  assume a: "user_findUnique_email mail d = Some u \<and> newId \<notin> set (map prt_id (passwordResetTokens d)) \<and>
    uuid \<notin> set (map prt_token (passwordResetTokens d))"
  then have "u \<in> set (users d)" by (auto simp: user_findUnique_email_def dest: find_Some_mem)
  then have "u_id u \<in> set (map u_id (users d))" by auto
  with a show "asyncHandler cfg (forgot_password_handler cfg now newId uuid [] mail d) =
        (\<lparr>status = 200,
          body = [(''success'', JBool True), (''message'', JStr ''Password reset email sent'')]
                 @ (if NODE_ENV cfg = Some ''development'' then [(''resetToken'', JStr uuid)] else [])\<rparr>,
         d\<lparr>passwordResetTokens := passwordResetTokens d @
             [\<lparr>prt_id = newId, prt_token = uuid, prt_userId = u_id u,
               prt_expiresAt = now + 3600000, prt_createdAt = now\<rparr>]\<rparr>)"
    by (simp add: forgot_password_handler_def asyncHandler_def generatePasswordResetToken_def
        passwordResetToken_create_def res_json_def)
qed

text \<open>
  Claim C8 as stated fails: a build that is not a production build (here the test build)
  and whose response does not hold the token.
\<close>

theorem forgot_password_counterexample:
  "NODE_ENV cfg_test \<noteq> Some ''production'' \<and>
   status (fst (asyncHandler cfg_test
      (forgot_password_handler cfg_test 5000 ''p1'' ''uuid-1'' [] ''a@b.com'' db_acme))) = 200 \<and>
   \<not> has_key ''resetToken'' (body (fst (asyncHandler cfg_test
      (forgot_password_handler cfg_test 5000 ''p1'' ''uuid-1'' [] ''a@b.com'' db_acme))))"
  by (simp add: cfg_test_def forgot_password_handler_def asyncHandler_def generatePasswordResetToken_def
        passwordResetToken_create_def res_json_def has_key_def user_findUnique_email_def db_acme_def ex_defs)

theorem forgot_password_results_witness:
  "user_findUnique_email ''nobody@b.com'' db_acme = None \<and>
   status (fst (asyncHandler cfg0
      (forgot_password_handler cfg0 5000 ''p1'' ''uuid-1'' [] ''nobody@b.com'' db_acme))) = 404 \<and>
   user_findUnique_email ''a@b.com'' db_acme = Some acme \<and>
   body (fst (asyncHandler cfg0
      (forgot_password_handler cfg0 5000 ''p1'' ''uuid-1'' [] ''a@b.com'' db_acme))) =
     [(''success'', JBool True), (''message'', JStr ''Password reset email sent''),
      (''resetToken'', JStr ''uuid-1'')] \<and>
   body (fst (asyncHandler cfg_prod
      (forgot_password_handler cfg_prod 5000 ''p1'' ''uuid-1'' [] ''a@b.com'' db_acme))) =
     [(''success'', JBool True), (''message'', JStr ''Password reset email sent'')] \<and>
   passwordResetTokens (snd (asyncHandler cfg_prod
      (forgot_password_handler cfg_prod 5000 ''p1'' ''uuid-1'' [] ''a@b.com'' db_acme))) =
     [\<lparr>prt_id = ''p1'', prt_token = ''uuid-1'', prt_userId = ''u1'',
       prt_expiresAt = 3605000, prt_createdAt = 5000\<rparr>]"
proof -
  have a: "user_findUnique_email ''nobody@b.com'' db_acme = None"
    by (simp add: user_findUnique_email_def db_acme_def ex_defs)
  have b: "user_findUnique_email ''a@b.com'' db_acme = Some acme \<and>
           ''p1'' \<notin> set (map prt_id (passwordResetTokens db_acme)) \<and>
           ''uuid-1'' \<notin> set (map prt_token (passwordResetTokens db_acme))"
    by (simp add: user_findUnique_email_def db_acme_def ex_defs)
  have c: "u_id acme = ''u1''" "passwordResetTokens db_acme = []"
     "NODE_ENV cfg0 = Some ''development''" "NODE_ENV cfg_prod = Some ''production''"
    by (simp_all add: ex_defs db_acme_def cfg_prod_def)
  note t1 = forgot_password_results[where mail = "''nobody@b.com''" and d = db_acme and cfg = cfg0
      and now = 5000 and newId = "''p1''" and uuid = "''uuid-1''"]
  note t2 = forgot_password_results[where mail = "''a@b.com''" and d = db_acme and cfg = cfg0
      and now = 5000 and newId = "''p1''" and uuid = "''uuid-1''" and u = acme]
  note t3 = forgot_password_results[where mail = "''a@b.com''" and d = db_acme and cfg = cfg_prod
      and now = 5000 and newId = "''p1''" and uuid = "''uuid-1''" and u = acme]
  show ?thesis
    using a b c t1 t2 t3 by simp
qed

subsection \<open>Reset password\<close>

lemma verify_reset_Some:
  assumes "verifyPasswordResetToken now tok d = (Inr (Some usr), d0)"
  shows "d0 = d \<and> tok \<in> set (map prt_token (passwordResetTokens d)) \<and>
         user_findUnique_id (u_id usr) d = Some usr"
proof -
  from assms obtain r where r: "find (\<lambda>r. prt_token r = tok) (passwordResetTokens d) = Some r"
      "user_findUnique_id (prt_userId r) d = Some usr" "d0 = d"
    by (auto simp: verifyPasswordResetToken_def passwordResetToken_findUnique_def
        split: option.splits if_splits sum.splits)
  from r(1) have "r \<in> set (passwordResetTokens d)" "prt_token r = tok"
    by (auto dest: find_Some_mem)
  then have "tok \<in> set (map prt_token (passwordResetTokens d))" by auto
  moreover from r(2) have "u_id usr = prt_userId r"
    by (auto simp: user_findUnique_id_def dest: find_Some_mem)
  ultimately show ?thesis using r by simp
qed

text \<open>
  Claim C2, as amended. Once the reset token has verified, each of the three effects takes
  place exactly when its own store call is not rejected, whatever happens to the other
  two: the password digest is replaced, the reset token is deleted, the refresh tokens of
  the user are deleted. The request fails only when the update of the user is rejected; a
  rejected deletion is not reported, and the answer is 200 all the same.
\<close>

theorem reset_password_effects:
  assumes v: "verifyPasswordResetToken now tok d = (Inr (Some usr), d0)"
  shows "reset_password_handler cfg now salt fails [] tok newPassword d =
     ((if updateFails fails then Inl (OtherError ''Store error'')
       else Inr \<lparr>status = 200, body = [(''success'', JBool True),
                    (''message'', JStr ''Password reset successful'')]\<rparr>),
      d\<lparr>users :=
           (if updateFails fails then users d
            else map (\<lambda>x. if u_id x = u_id usr
                          then x\<lparr>u_passwordHash := hashPassword cfg salt newPassword,
                                 u_updatedAt := now\<rparr>
                          else x) (users d)),
        passwordResetTokens :=
           (if consumeFails fails then passwordResetTokens d
            else filter (\<lambda>r. prt_token r \<noteq> tok) (passwordResetTokens d)),
        refreshTokens :=
           (if revokeFails fails then refreshTokens d
            else filter (\<lambda>r. rt_userId r \<noteq> u_id usr) (refreshTokens d))\<rparr>)"
proof -
  note f = verify_reset_Some[OF v]
  then have d0: "d0 = d" by simp
  show ?thesis
    using f
    by (simp add: reset_password_handler_def v d0 Let_def user_update_def store_call_def
        consumePasswordResetToken_def passwordResetToken_delete_token_def
        revokeAllUserTokens_def refreshToken_deleteMany_userId_def res_json_def)
qed

lemma verify_db_reset:
  "verifyPasswordResetToken 5000 ''uuid-1'' db_reset = (Inr (Some acme), db_reset)"
  by (simp add: verifyPasswordResetToken_def passwordResetToken_findUnique_def db_reset_def
      reset_row1_def user_findUnique_id_def ex_defs)

text \<open>
  Claim C2 as stated fails: the update of the user is rejected and the request fails, yet
  the reset token is consumed and the session of the user is revoked.
\<close>

theorem reset_password_counterexample:
  "isl (fst (reset_password_handler cfg0 5000 ''salt2'' update_rejected [] ''uuid-1'' ''Newpass12'' db_reset)) \<and>
   users (snd (reset_password_handler cfg0 5000 ''salt2'' update_rejected [] ''uuid-1'' ''Newpass12'' db_reset))
     = users db_reset \<and>
   passwordResetTokens db_reset = [reset_row1] \<and>
   passwordResetTokens (snd (reset_password_handler cfg0 5000 ''salt2'' update_rejected [] ''uuid-1'' ''Newpass12'' db_reset)) = [] \<and>
   refreshTokens db_reset = [session_row] \<and>
   refreshTokens (snd (reset_password_handler cfg0 5000 ''salt2'' update_rejected [] ''uuid-1'' ''Newpass12'' db_reset)) = []"
  by (simp add: reset_password_handler_def verify_db_reset update_rejected_def Let_def
      consumePasswordResetToken_def passwordResetToken_delete_token_def store_call_def
      revokeAllUserTokens_def refreshToken_deleteMany_userId_def)
     (simp add: db_reset_def reset_row1_def session_row_def ex_defs)

theorem reset_password_effects_witness:
  "verifyPasswordResetToken 5000 ''uuid-1'' db_reset = (Inr (Some acme), db_reset) \<and>
   reset_password_handler cfg0 5000 ''salt2'' consume_rejected [] ''uuid-1'' ''Newpass12'' db_reset =
     (Inr \<lparr>status = 200, body = [(''success'', JBool True),
                    (''message'', JStr ''Password reset successful'')]\<rparr>,
      db_reset\<lparr>users := [acme\<lparr>u_passwordHash := hashPassword cfg0 ''salt2'' ''Newpass12'',
                               u_updatedAt := 5000\<rparr>],
               refreshTokens := []\<rparr>)"
  using reset_password_effects[OF verify_db_reset, of cfg0 "''salt2''" consume_rejected "''Newpass12''"]
  by (simp add: consume_rejected_def verify_db_reset)
     (simp add: db_reset_def reset_row1_def session_row_def ex_defs)

section \<open>Properties of the middleware\<close>

lemmas mw_defs = bearer_def anon_def ghost_payload_def verifyAccessToken_def db_acme_def

text \<open>
  Claim C6, as amended. \<open>authenticate\<close> answers 401 "Access token required" when there is no header
  or the header does not start with \<open>Bearer \<close>, 401 "Invalid or expired token" when the
  token does not verify, and 401 "User not found" when the user id of the token has no row;
  otherwise it attaches id, address, names, role and verified flag of the row and calls
  \<open>next\<close>. \<open>optionalAuth\<close> calls \<open>next\<close> with the request untouched wherever
  \<open>authenticate\<close> answers, and does what \<open>authenticate\<close> does otherwise.
\<close>

theorem authenticate_results:
  "(authorization req = None \<or> (\<exists>s t. authorization req = Some (s, t) \<and> s \<noteq> ''Bearer '') \<longrightarrow>
      authenticate cfg now req d =
        Responded \<lparr>status = 401, body = [(''success'', JBool False),
                                         (''message'', JStr ''Access token required'')]\<rparr>) \<and>
   (authorization req = Some (''Bearer '', tok) \<and> verifyAccessToken cfg now tok = None \<longrightarrow>
      authenticate cfg now req d =
        Responded \<lparr>status = 401, body = [(''success'', JBool False),
                                         (''message'', JStr ''Invalid or expired token'')]\<rparr>) \<and>
   (authorization req = Some (''Bearer '', tok) \<and> verifyAccessToken cfg now tok = Some c \<and>
    user_findUnique_id (userId c) d = None \<longrightarrow>
      authenticate cfg now req d =
        Responded \<lparr>status = 401, body = [(''success'', JBool False),
                                         (''message'', JStr ''User not found'')]\<rparr>) \<and>
   (authorization req = Some (''Bearer '', tok) \<and> verifyAccessToken cfg now tok = Some c \<and>
    user_findUnique_id (userId c) d = Some u \<longrightarrow>
      authenticate cfg now req d =
        Next (req\<lparr>req_user := Some \<lparr>ru_id = u_id u, ru_email = u_email u,
                 ru_firstName = u_firstName u, ru_lastName = u_lastName u, ru_role = u_role u,
                 ru_isEmailVerified = u_isEmailVerified u\<rparr>\<rparr>)) \<and>
   optionalAuth cfg now req d =
     (case authenticate cfg now req d of Responded r \<Rightarrow> Next req | Next req' \<Rightarrow> Next req')"
  by (auto simp: authenticate_def optionalAuth_def unauthorized_def res_json_def selected_identity_def
      split: option.splits)

text \<open>
  Claim C6 as stated fails: for a token whose user has no row the answer of
  \<open>authenticate\<close> has status 401, as its other two rejections have, while the not-found
  error that the handlers throw for a missing user, \<open>AppError('User not found', 404)\<close>,
  is answered with status 404.
\<close>

theorem authenticate_counterexample:
  "authenticate cfg0 5000 (bearer (generateAccessToken cfg0 0 ghost_payload)) db_acme =
     Responded \<lparr>status = 401, body = [(''success'', JBool False),
                                      (''message'', JStr ''User not found'')]\<rparr> \<and>
   errorHandler cfg0 (AppError ''User not found'' 404 []) =
     \<lparr>status = 404, body = [(''success'', JBool False), (''message'', JStr ''User not found'')]\<rparr>"
  by (simp add: authenticate_def unauthorized_def res_json_def errorHandler_def mw_defs ex_defs)

theorem authenticate_results_witness:
  "authenticate cfg0 5000 anon db_acme =
     Responded \<lparr>status = 401, body = [(''success'', JBool False),
                                      (''message'', JStr ''Access token required'')]\<rparr> \<and>
   optionalAuth cfg0 5000 anon db_acme = Next anon \<and>
   authenticate cfg0 5000 (bearer (NotJWT ''garbage'')) db_acme =
     Responded \<lparr>status = 401, body = [(''success'', JBool False),
                                      (''message'', JStr ''Invalid or expired token'')]\<rparr> \<and>
   optionalAuth cfg0 5000 (bearer (NotJWT ''garbage'')) db_acme = Next (bearer (NotJWT ''garbage'')) \<and>
   authenticate cfg0 5000 (bearer (generateAccessToken cfg0 0 ghost_payload)) db_acme =
     Responded \<lparr>status = 401, body = [(''success'', JBool False),
                                      (''message'', JStr ''User not found'')]\<rparr> \<and>
   optionalAuth cfg0 5000 (bearer (generateAccessToken cfg0 0 ghost_payload)) db_acme
     = Next (bearer (generateAccessToken cfg0 0 ghost_payload)) \<and>
   authenticate cfg0 5000 (bearer (generateAccessToken cfg0 0 acme_payload)) db_acme =
     Next ((bearer (generateAccessToken cfg0 0 acme_payload))
       \<lparr>req_user := Some \<lparr>ru_id = ''u1'', ru_email = ''a@b.com'', ru_firstName = ''A'',
           ru_lastName = ''B'', ru_role = ''CLIENT'', ru_isEmailVerified = False\<rparr>\<rparr>) \<and>
   optionalAuth cfg0 5000 (bearer (generateAccessToken cfg0 0 acme_payload)) db_acme =
     authenticate cfg0 5000 (bearer (generateAccessToken cfg0 0 acme_payload)) db_acme"
proof -
  have a: "authorization anon = None" by (simp add: anon_def)
  have b: "authorization (bearer (NotJWT ''garbage'')) = Some (''Bearer '', NotJWT ''garbage'') \<and>
           verifyAccessToken cfg0 5000 (NotJWT ''garbage'') = None"
    by (simp add: mw_defs ex_defs)
  have c: "authorization (bearer (generateAccessToken cfg0 0 ghost_payload))
             = Some (''Bearer '', generateAccessToken cfg0 0 ghost_payload) \<and>
           verifyAccessToken cfg0 5000 (generateAccessToken cfg0 0 ghost_payload)
             = Some \<lparr>userId = ''u9'', email = ''ghost@b.com'', role = ''CLIENT'', iat = 0,
                     exp = 3600, iss = ''freelance-marketplace'', aud = ''freelance-marketplace-app''\<rparr> \<and>
           user_findUnique_id ''u9'' db_acme = None"
    by (simp add: mw_defs ex_defs)
  have d: "authorization (bearer (generateAccessToken cfg0 0 acme_payload))
             = Some (''Bearer '', generateAccessToken cfg0 0 acme_payload) \<and>
           verifyAccessToken cfg0 5000 (generateAccessToken cfg0 0 acme_payload)
             = Some \<lparr>userId = ''u1'', email = ''a@b.com'', role = ''CLIENT'', iat = 0,
                     exp = 3600, iss = ''freelance-marketplace'', aud = ''freelance-marketplace-app''\<rparr> \<and>
           user_findUnique_id ''u1'' db_acme = Some acme"
    by (simp add: mw_defs ex_defs)
  have f: "u_id acme = ''u1''" "u_email acme = ''a@b.com''" "u_firstName acme = ''A''"
    "u_lastName acme = ''B''" "u_role acme = ''CLIENT''" "u_isEmailVerified acme = False"
    by (simp_all add: ex_defs)
  note t1 = authenticate_results[where req = anon and cfg = cfg0 and now = 5000 and d = db_acme]
  note t2 = authenticate_results[where req = "bearer (NotJWT ''garbage'')"
      and tok = "NotJWT ''garbage''" and cfg = cfg0 and now = 5000 and d = db_acme]
  note t3 = authenticate_results[where req = "bearer (generateAccessToken cfg0 0 ghost_payload)"
      and tok = "generateAccessToken cfg0 0 ghost_payload" and cfg = cfg0 and now = 5000
      and c = "\<lparr>userId = ''u9'', email = ''ghost@b.com'', role = ''CLIENT'', iat = 0,
                exp = 3600, iss = ''freelance-marketplace'', aud = ''freelance-marketplace-app''\<rparr>"
      and d = db_acme]
  note t4 = authenticate_results[where req = "bearer (generateAccessToken cfg0 0 acme_payload)"
      and tok = "generateAccessToken cfg0 0 acme_payload" and cfg = cfg0 and now = 5000
      and c = "\<lparr>userId = ''u1'', email = ''a@b.com'', role = ''CLIENT'', iat = 0,
                exp = 3600, iss = ''freelance-marketplace'', aud = ''freelance-marketplace-app''\<rparr>"
      and d = db_acme and u = acme]
  show ?thesis
    using a b c d f t1 t2 t3 t4 by simp
qed

subsection \<open>The rate limiter\<close>

lemma limiter_other_key:
  "limiter_key req \<noteq> k \<Longrightarrow> snd (rateLimitByUser M W req now requests) k = requests k"
  by (simp add: rateLimitByUser_def Let_def split: option.splits)

lemma limiter_fresh:
  assumes "requests (limiter_key req) = None \<or>
           (\<exists>e. requests (limiter_key req) = Some e \<and> now > resetTime e)"
  shows "rateLimitByUser M W req now requests =
           (Next req, requests(limiter_key req \<mapsto> \<lparr>count = 1, resetTime = now + W\<rparr>))"
  using assms by (auto simp: rateLimitByUser_def Let_def)

lemma limiter_full:
  assumes "requests (limiter_key req) = Some e" "\<not> now > resetTime e" "count e \<ge> M"
  shows "rateLimitByUser M W req now requests = (Responded too_many, requests)"
  using assms by (simp add: rateLimitByUser_def Let_def res_json_def too_many_def)

lemma limiter_counted:
  assumes "requests (limiter_key req) = Some e" "\<not> now > resetTime e" "\<not> count e \<ge> M"
  shows "rateLimitByUser M W req now requests =
           (Next req, requests(limiter_key req \<mapsto> e\<lparr>count := count e + 1\<rparr>))"
  using assms by (simp add: rateLimitByUser_def Let_def)

lemma passed_in_window:
  assumes "requests k = Some e"
    and "\<forall>(req, now) \<in> set es. limiter_key req = k \<longrightarrow> now \<le> resetTime e"
  shows "int (passed M W k es requests) \<le> max 0 (M - count e)"
  using assms
proof (induction es arbitrary: requests e)
  case Nil
  then show ?case by simp
next
  case (Cons a es)
  obtain req now where a: "a = (req, now)" by (cases a)
  show ?case
  proof (cases "limiter_key req = k")
    case False
    have same: "snd (rateLimitByUser M W req now requests) k = Some e"
      using False Cons.prems(1) by (simp add: limiter_other_key)
    have ih: "int (passed M W k es (snd (rateLimitByUser M W req now requests))) \<le> max 0 (M - count e)"
      using Cons.IH[of "snd (rateLimitByUser M W req now requests)" e] same Cons.prems(2) by simp
    show ?thesis
      using False ih unfolding a
      by (cases "rateLimitByUser M W req now requests"; cases "fst (rateLimitByUser M W req now requests)")
         auto
  next
    case True
    then have inwin: "\<not> now > resetTime e" using Cons.prems(2) a by auto
    show ?thesis
    proof (cases "count e \<ge> M")
      case full: True
      have step: "rateLimitByUser M W req now requests = (Responded too_many, requests)"
        using limiter_full[of requests req e now M W] True Cons.prems(1) inwin full by simp
      have "int (passed M W k es requests) \<le> max 0 (M - count e)"
        using Cons.IH[of requests e] Cons.prems by simp
      then show ?thesis unfolding a by (simp add: step)
    next
      case room: False
      let ?e' = "e\<lparr>count := count e + 1\<rparr>"
      let ?r' = "requests(k \<mapsto> ?e')"
      have step: "rateLimitByUser M W req now requests = (Next req, ?r')"
        using limiter_counted[of requests req e now M W] True Cons.prems(1) inwin room by simp
      have "int (passed M W k es ?r') \<le> max 0 (M - count ?e')"
      proof (rule Cons.IH)
        show "?r' k = Some ?e'" by simp
        show "\<forall>(req, now) \<in> set es. limiter_key req = k \<longrightarrow> now \<le> resetTime ?e'"
          using Cons.prems(2) by simp
      qed
      then show ?thesis unfolding a using room True by (simp add: step)
    qed
  qed
qed

text \<open>
  Claim C10, as amended. A request whose key has no entry, or arrives after the reset time
  of its entry, is passed on and starts a window with count 1; if \<open>maxRequests\<close> is at
  least 1, then among this request and any later requests, those of the same key arriving
  no later than the reset time of the window, at most \<open>maxRequests\<close> are passed on,
  whatever the other keys do. Inside a window a request that finds the count at
  \<open>maxRequests\<close> or above gets 429 and leaves the limiter unchanged; one that finds it
  below is passed on and adds one to the count.
\<close>

theorem rateLimitByUser_window:
  "(requests (limiter_key req) = None \<or>
      (\<exists>e. requests (limiter_key req) = Some e \<and> now > resetTime e) \<longrightarrow>
      rateLimitByUser M W req now requests =
        (Next req, requests(limiter_key req \<mapsto> \<lparr>count = 1, resetTime = now + W\<rparr>)) \<and>
      (1 \<le> M \<and> (\<forall>(r, t) \<in> set rest. limiter_key r = limiter_key req \<longrightarrow> t \<le> now + W) \<longrightarrow>
         int (passed M W (limiter_key req) ((req, now) # rest) requests) \<le> M)) \<and>
   (requests (limiter_key req) = Some e \<and> now \<le> resetTime e \<and> count e \<ge> M \<longrightarrow>
      rateLimitByUser M W req now requests =
        (Responded \<lparr>status = 429, body = [(''success'', JBool False),
                                          (''message'', JStr ''Too many requests'')]\<rparr>, requests)) \<and>
   (requests (limiter_key req) = Some e \<and> now \<le> resetTime e \<and> count e < M \<longrightarrow>
      rateLimitByUser M W req now requests =
        (Next req, requests(limiter_key req \<mapsto> e\<lparr>count := count e + 1\<rparr>)))"
proof (intro conjI impI)
  assume f: "requests (limiter_key req) = None \<or>
      (\<exists>e. requests (limiter_key req) = Some e \<and> now > resetTime e)"
  then show step: "rateLimitByUser M W req now requests =
        (Next req, requests(limiter_key req \<mapsto> \<lparr>count = 1, resetTime = now + W\<rparr>))"
    by (rule limiter_fresh)
  assume w: "1 \<le> M \<and> (\<forall>(r, t) \<in> set rest. limiter_key r = limiter_key req \<longrightarrow> t \<le> now + W)"
  let ?e = "\<lparr>count = 1, resetTime = now + W\<rparr>"
  have "int (passed M W (limiter_key req) rest (requests(limiter_key req \<mapsto> ?e))) \<le> max 0 (M - count ?e)"
    using w by (intro passed_in_window) auto
  with w show "int (passed M W (limiter_key req) ((req, now) # rest) requests) \<le> M"
    by (simp add: step)
next
  assume "requests (limiter_key req) = Some e \<and> now \<le> resetTime e \<and> count e \<ge> M"
  then show "rateLimitByUser M W req now requests =
        (Responded \<lparr>status = 429, body = [(''success'', JBool False),
                                          (''message'', JStr ''Too many requests'')]\<rparr>, requests)"
    using limiter_full[of requests req e now M W] by (simp add: too_many_def)
next
  assume "requests (limiter_key req) = Some e \<and> now \<le> resetTime e \<and> count e < M"
  then show "rateLimitByUser M W req now requests =
        (Next req, requests(limiter_key req \<mapsto> e\<lparr>count := count e + 1\<rparr>))"
    using limiter_counted[of requests req e now M W] by simp
qed

text \<open>
  Claim C10 as stated fails for \<open>maxRequests = 0\<close>: the first request of a window is
  passed on without a look at the limit.
\<close>

theorem rateLimitByUser_zero_counterexample:
  "passed 0 60000 (limiter_key anon) [(anon, 0)] Map.empty = 1"
  by (simp add: anon_def rateLimitByUser_def Let_def)

theorem rateLimitByUser_window_witness:
  "Map.empty (limiter_key anon) = None \<and>
   rateLimitByUser 2 60000 anon 0 Map.empty =
     (Next anon, [''anonymous'' \<mapsto> \<lparr>count = 1, resetTime = 60000\<rparr>]) \<and>
   int (passed 2 60000 ''anonymous'' [(anon, 0), (anon, 10), (anon, 20)] Map.empty) \<le> 2 \<and>
   rateLimitByUser 2 60000 anon 20 [''anonymous'' \<mapsto> \<lparr>count = 2, resetTime = 60000\<rparr>] =
     (Responded too_many, [''anonymous'' \<mapsto> \<lparr>count = 2, resetTime = 60000\<rparr>]) \<and>
   rateLimitByUser 2 60000 anon 10 [''anonymous'' \<mapsto> \<lparr>count = 1, resetTime = 60000\<rparr>] =
     (Next anon, [''anonymous'' \<mapsto> \<lparr>count = 2, resetTime = 60000\<rparr>]) \<and>
   rateLimitByUser 2 60000 anon 60001 [''anonymous'' \<mapsto> \<lparr>count = 2, resetTime = 60000\<rparr>] =
     (Next anon, [''anonymous'' \<mapsto> \<lparr>count = 1, resetTime = 120001\<rparr>])"
proof -
  have k: "limiter_key anon = ''anonymous''"
    by (simp add: limiter_key_def anon_def truthy_str_def)
  note t1 = rateLimitByUser_window[where requests = Map.empty and req = anon and now = 0
      and M = 2 and W = 60000 and rest = "[(anon, 10), (anon, 20)]"]
  note t2 = rateLimitByUser_window[where
      requests = "[''anonymous'' \<mapsto> \<lparr>count = 2, resetTime = 60000\<rparr>]" and req = anon
      and now = 20 and M = 2 and W = 60000 and e = "\<lparr>count = 2, resetTime = 60000\<rparr>"]
  note t3 = rateLimitByUser_window[where
      requests = "[''anonymous'' \<mapsto> \<lparr>count = 1, resetTime = 60000\<rparr>]" and req = anon
      and now = 10 and M = 2 and W = 60000 and e = "\<lparr>count = 1, resetTime = 60000\<rparr>"]
  note t4 = rateLimitByUser_window[where
      requests = "[''anonymous'' \<mapsto> \<lparr>count = 2, resetTime = 60000\<rparr>]" and req = anon
      and now = 60001 and M = 2 and W = 60000 and rest = "[]"]
  show ?thesis
    using t1 t2 t3 t4 by (simp add: k too_many_def)
qed

section \<open>The constraints of the schema are invariants\<close>

text \<open>
  The empty store satisfies the constraints, and every function of the token service and
  every handler leaves a store that satisfies them in one that does, whether it returns or
  throws.
\<close>

lemma db_ok_empty: "db_ok db_empty"
  by (simp add: db_ok_def db_empty_def)

lemma distinct_map_filterI: "distinct (map f xs) \<Longrightarrow> distinct (map f (filter P xs))"
  by (induction xs) auto

lemma db_ok_refreshTokens_filter:
  "db_ok d \<Longrightarrow> db_ok (d\<lparr>refreshTokens := filter P (refreshTokens d)\<rparr>)"
  by (simp add: db_ok_def distinct_map_filterI list_all_iff)

lemma db_ok_passwordResetTokens_filter:
  "db_ok d \<Longrightarrow> db_ok (d\<lparr>passwordResetTokens := filter P (passwordResetTokens d)\<rparr>)"
  by (simp add: db_ok_def distinct_map_filterI list_all_iff)

lemma db_ok_refreshToken_create:
  "db_ok d \<Longrightarrow> refreshToken_create r d = Inr d' \<Longrightarrow> db_ok d'"
  by (auto simp: db_ok_def refreshToken_create_def split: if_splits)

lemma db_ok_passwordResetToken_create:
  "db_ok d \<Longrightarrow> passwordResetToken_create r d = Inr d' \<Longrightarrow> db_ok d'"
  by (auto simp: db_ok_def passwordResetToken_create_def split: if_splits)

lemma db_ok_user_create:
  "db_ok d \<Longrightarrow> user_create u d = Inr d' \<Longrightarrow> db_ok d'"
  by (auto simp: db_ok_def user_create_def list_all_iff split: if_splits)

lemma db_ok_userSkill_createMany:
  "db_ok d \<Longrightarrow> userSkill_createMany rows d = Inr d' \<Longrightarrow> db_ok d'"
  by (auto simp: db_ok_def userSkill_createMany_def list_all_iff split: if_splits)

lemma db_ok_user_update:
  assumes "db_ok d" "user_update i f now d = Inr d'"
    and "\<And>u. u_id (f u) = u_id u" "\<And>u. u_email (f u) = u_email u"
  shows "db_ok d'"
proof -
  let ?g = "\<lambda>x. if u_id x = i then (f x)\<lparr>u_updatedAt := now\<rparr> else x"
  have i: "map u_id (map ?g (users d)) = map u_id (users d)"
    by (induction "users d") (auto simp: assms(3))
  have e: "map u_email (map ?g (users d)) = map u_email (users d)"
    by (induction "users d") (auto simp: assms(4))
  from assms(2) have d': "d' = d\<lparr>users := map ?g (users d)\<rparr>"
    by (auto simp: user_update_def split: option.splits)
  show ?thesis
    using assms(1) i e unfolding d' db_ok_def by (simp del: map_map)
qed

lemma db_ok_generateTokenPair:
  "db_ok d \<Longrightarrow> db_ok (snd (generateTokenPair cfg now newId usr d))"
  by (auto simp: generateTokenPair_def Let_def split: sum.splits dest: db_ok_refreshToken_create)

lemma db_ok_refreshAccessToken:
  "db_ok d \<Longrightarrow> db_ok (snd (refreshAccessToken cfg now tok d))"
  by (auto simp: refreshAccessToken_def refreshToken_delete_id_def db_ok_refreshTokens_filter
      split: option.splits sum.splits if_splits)

lemma db_ok_revokeRefreshToken:
  "db_ok d \<Longrightarrow> db_ok (snd (revokeRefreshToken rejected tok d))"
  by (simp add: revokeRefreshToken_def store_call_def refreshToken_delete_token_def
      db_ok_refreshTokens_filter)

lemma db_ok_revokeAllUserTokens:
  "db_ok d \<Longrightarrow> db_ok (snd (revokeAllUserTokens rejected i d))"
  by (simp add: revokeAllUserTokens_def store_call_def refreshToken_deleteMany_userId_def
      db_ok_refreshTokens_filter)

lemma db_ok_generatePasswordResetToken:
  "db_ok d \<Longrightarrow> db_ok (snd (generatePasswordResetToken now newId uuid i d))"
  by (auto simp: generatePasswordResetToken_def split: sum.splits
      dest: db_ok_passwordResetToken_create)

lemma db_ok_verifyPasswordResetToken:
  "db_ok d \<Longrightarrow> db_ok (snd (verifyPasswordResetToken now t d))"
  by (auto simp: verifyPasswordResetToken_def passwordResetToken_delete_id_def
      db_ok_passwordResetTokens_filter split: option.splits sum.splits if_splits)

lemma db_ok_consumePasswordResetToken:
  "db_ok d \<Longrightarrow> db_ok (snd (consumePasswordResetToken rejected t d))"
  by (simp add: consumePasswordResetToken_def store_call_def passwordResetToken_delete_token_def
      db_ok_passwordResetTokens_filter)

lemma db_ok_register_transaction:
  "db_ok d \<Longrightarrow> register_transaction b newUser skillIds d = Inr d' \<Longrightarrow> db_ok d'"
  by (auto simp: register_transaction_def split: sum.splits option.splits if_splits
      dest: db_ok_user_create db_ok_userSkill_createMany)

lemma db_ok_register_handler:
  assumes "db_ok d"
  shows "db_ok (snd (register_handler cfg now salt uid sids tid errors b d))"
proof -
  have "db_ok (snd (generateTokenPair cfg now tid u d1))" if "db_ok d1" for u d1
    using that by (rule db_ok_generateTokenPair)
  then show ?thesis
    using assms
    by (auto simp: register_handler_def Let_def split: option.splits sum.splits prod.splits
        dest!: db_ok_register_transaction[OF assms]) (metis snd_conv)+
qed

lemma db_ok_login_handler:
  assumes "db_ok d"
  shows "db_ok (snd (login_handler cfg now tid errors mail password d))"
proof -
  have upd: "db_ok d1"
    if "user_update i (\<lambda>u. u\<lparr>u_lastSeen := now, u_isOnline := True\<rparr>) now d = Inr d1" for i d1
    using assms that by (rule db_ok_user_update) simp_all
  have "db_ok (snd (generateTokenPair cfg now tid u d1))" if "db_ok d1" for u d1
    using that by (rule db_ok_generateTokenPair)
  then show ?thesis
    using assms
    by (auto simp: login_handler_def split: option.splits sum.splits prod.splits dest!: upd)
       (metis snd_conv)+
qed

lemma db_ok_forgot_password_handler:
  assumes "db_ok d"
  shows "db_ok (snd (forgot_password_handler cfg now newId uuid errors mail d))"
proof -
  have "db_ok (snd (generatePasswordResetToken now newId uuid i d))" for i
    using assms by (rule db_ok_generatePasswordResetToken)
  then show ?thesis
    using assms
    by (auto simp: forgot_password_handler_def split: option.splits sum.splits prod.splits)
       (metis snd_conv)+
qed

lemma db_ok_reset_password_handler:
  assumes "db_ok d"
  shows "db_ok (snd (reset_password_handler cfg now salt fails errors tok newPassword d))"
proof (cases "errors \<noteq> []")
  case True
  then show ?thesis using assms by (simp add: reset_password_handler_def)
next
  case False
  obtain r d0 where v: "verifyPasswordResetToken now tok d = (r, d0)" by force
  have d0: "db_ok d0" using db_ok_verifyPasswordResetToken[OF assms, of now tok] v by simp
  show ?thesis
  proof (cases r)
    case (Inl e)
    then show ?thesis using False v d0 by (simp add: reset_password_handler_def)
  next
    case (Inr found)
    show ?thesis
    proof (cases found)
      case None
      then show ?thesis using False v d0 Inr by (simp add: reset_password_handler_def)
    next
      case (Some usr)
      let ?h = "hashPassword cfg salt newPassword"
      let ?upd = "store_call (updateFails fails)
                    (user_update (u_id usr) (\<lambda>u. u\<lparr>u_passwordHash := ?h\<rparr>) now) d0"
      let ?d1 = "case ?upd of Inl e \<Rightarrow> d0 | Inr d' \<Rightarrow> d'"
      have ok1: "db_ok ?d1"
        using d0 db_ok_user_update[of d0 "u_id usr" "\<lambda>u. u\<lparr>u_passwordHash := ?h\<rparr>" now]
        by (auto simp: store_call_def split: if_splits sum.splits)
      have ok3: "db_ok (snd (revokeAllUserTokens (revokeFails fails) (u_id usr)
                   (snd (consumePasswordResetToken (consumeFails fails) tok ?d1))))"
        using ok1 by (intro db_ok_revokeAllUserTokens db_ok_consumePasswordResetToken)
      show ?thesis
        using False v Inr Some ok3
        by (auto simp: reset_password_handler_def Let_def split: sum.splits prod.splits)
    qed
  qed
qed

end
